theory Spec2Isabelle
  imports Main
begin

section \<open>The document\<close>

text \<open>
  The components work on the browser's document. The document is the list of its
  elements in tree order; an element is named by its position in that list, which
  plays the part of the JavaScript object reference (two references are the same
  object exactly when the positions are equal).

  An element carries its kind, its parent, its attributes other than \<open>class\<close>, the
  tokens of its class list, and the values of the two properties the components read
  besides attributes: \<open>checked\<close> and \<open>form\<close>.

  The kind says what the element is an instance of and what a type selector sees: an
  \<open>input\<close> element of the HTML namespace (an HTMLInputElement), another HTML element, an
  element named \<open>input\<close> in a foreign namespace (as the HTML parser makes for an \<open>input\<close>
  tag inside \<open>svg\<close>: no HTMLElement, but matched by the type selector \<open>input\<close>), or another
  foreign element.

  \<open>checked\<close> is the value of the JavaScript property: a boolean on an HTMLInputElement;
  on any other element \<open>undefined\<close> (\<open>None\<close>) until a script assigns it. \<open>form\<close> is the
  value of the property \<open>form\<close>: \<open>undefined\<close> on an element that has no such property,
  otherwise \<open>null\<close> or the form owner.
\<close>

type_synonym node = nat

datatype kind = HTMLInput | HTMLOther | ForeignInput | ForeignOther

datatype form_value = FormUndefined | FormNull | FormOwner node

record element =
  kind :: kind
  parent :: "node option"
  attrs :: "string \<rightharpoonup> string"
  classList :: "string list"
  checked :: "bool option"
  form :: form_value

type_synonym document = "element list"

text \<open>A JavaScript value passed where an element is expected: \<open>null\<close> or an element.\<close>

datatype js_value = Null | Elem node

text \<open>
  What a constructor or a method can throw. \<open>SupportError\<close> carries the message of the
  support check, \<open>ElementError\<close> says which node or attribute is missing (the
  \<open>identifier\<close> text of the source, as a value):
  \<^item> \<open>RootElement\<close>: the root element (\<open>$module\<close>);
  \<^item> \<open>NavButtonAriaControls\<close>: the navigation button's attribute \<open>aria-controls\<close>;
  \<^item> \<open>Navigation menuId\<close>: the navigation list with that id;
  \<^item> \<open>CssCustomProperty property\<close>: the CSS custom property on \<open>:root\<close>.

  \<open>SyntaxError\<close> is the exception of \<open>querySelectorAll\<close> for a selector that is not
  valid, with the selector's text. \<open>TypeError\<close> is the exception of a method call on
  \<open>undefined\<close>. \<open>ModuleNotFound\<close> is what \<open>require\<close> throws for a missing fixtures file.
\<close>

datatype missing = RootElement | NavButtonAriaControls | Navigation string | CssCustomProperty string

datatype error =
    SupportError string
  | ElementError missing
  | SyntaxError string
  | TypeError
  | ModuleNotFound string

text \<open>Truthiness of an attribute value: \<open>null\<close> and the empty string are falsy.\<close>

definition truthy :: "string option \<Rightarrow> bool" where
  "truthy v = (case v of None \<Rightarrow> False | Some s \<Rightarrow> s \<noteq> [])"

definition toString :: "bool \<Rightarrow> string" where
  "toString b = (if b then ''true'' else ''false'')"

definition getAttribute :: "document \<Rightarrow> node \<Rightarrow> string \<Rightarrow> string option" where
  "getAttribute d i a = attrs (d ! i) a"

definition setAttribute :: "document \<Rightarrow> node \<Rightarrow> string \<Rightarrow> string \<Rightarrow> document" where
  "setAttribute d i a v = d[i := (d ! i)\<lparr>attrs := (attrs (d ! i))(a \<mapsto> v)\<rparr>]"

definition removeAttribute :: "document \<Rightarrow> node \<Rightarrow> string \<Rightarrow> document" where
  "removeAttribute d i a = d[i := (d ! i)\<lparr>attrs := (attrs (d ! i))(a := None)\<rparr>]"

text \<open>The assignment \<open>element.checked = b\<close>.\<close>

definition set_checked :: "document \<Rightarrow> node \<Rightarrow> bool \<Rightarrow> document" where
  "set_checked d i b = d[i := (d ! i)\<lparr>checked := Some b\<rparr>]"

text \<open>
  \<open>classList.toggle(c, force)\<close>: with \<open>force\<close> true the token is added unless present,
  with \<open>force\<close> false it is removed.
\<close>

definition classList_toggle :: "document \<Rightarrow> node \<Rightarrow> string \<Rightarrow> bool \<Rightarrow> document" where
  "classList_toggle d i c force =
     d[i := (d ! i)\<lparr>classList :=
        (if force
         then (if c \<in> set (classList (d ! i)) then classList (d ! i) else classList (d ! i) @ [c])
         else filter (\<lambda>x. x \<noteq> c) (classList (d ! i)))\<rparr>]"

text \<open>
  \<open>document.getElementById\<close>: the first element in tree order with that id; no element
  has the empty id.
\<close>

definition getElementById :: "document \<Rightarrow> string \<Rightarrow> node option" where
  "getElementById d ident =
     (if ident = [] then None
      else find (\<lambda>i. attrs (d ! i) ''id'' = Some ident) [0..<length d])"

text \<open>
  \<open>is_ancestor k d m i\<close>: \<open>m\<close> is reached from \<open>i\<close> by at most \<open>k\<close> parent steps. With
  \<open>k = length d\<close> this is "\<open>i\<close> is a descendant of \<open>m\<close>".
\<close>

fun is_ancestor :: "nat \<Rightarrow> document \<Rightarrow> node \<Rightarrow> node \<Rightarrow> bool" where
  "is_ancestor 0 d m i = False"
| "is_ancestor (Suc k) d m i =
     (i < length d \<and>
      (case parent (d ! i) of None \<Rightarrow> False | Some p \<Rightarrow> p = m \<or> is_ancestor k d m p))"

definition descendant :: "document \<Rightarrow> node \<Rightarrow> node \<Rightarrow> bool" where
  "descendant d m i = is_ancestor (length d) d m i"

text \<open>
  The value of a \<open>type\<close> attribute is compared without regard to ASCII case, by the
  attribute selector \<open>[type="checkbox"]\<close> of an HTML document as by the \<open>type\<close> property
  of an HTMLInputElement (which is \<open>checkbox\<close> exactly for such a value).
\<close>

definition ascii_lower :: "char \<Rightarrow> char" where
  "ascii_lower c =
     (if c \<in> set ''ABCDEFGHIJKLMNOPQRSTUVWXYZ'' then char_of (of_char c + (32 :: nat)) else c)"

definition type_is_checkbox :: "element \<Rightarrow> bool" where
  "type_is_checkbox e =
     (case attrs e ''type'' of None \<Rightarrow> False | Some v \<Rightarrow> map ascii_lower v = ''checkbox'')"

text \<open>
  The selector \<open>input[type="checkbox"]\<close> on one element: the type selector matches an
  element named \<open>input\<close> of any namespace.
\<close>

definition matches_input_checkbox :: "element \<Rightarrow> bool" where
  "matches_input_checkbox e =
     ((kind e = HTMLInput \<or> kind e = ForeignInput) \<and> type_is_checkbox e)"

text \<open>\<open>$module.querySelectorAll('input[type="checkbox"]')\<close>, in tree order.\<close>

definition querySelectorAll_checkboxes :: "document \<Rightarrow> node \<Rightarrow> node list" where
  "querySelectorAll_checkboxes d m =
     filter (\<lambda>i. descendant d m i \<and> matches_input_checkbox (d ! i)) [0..<length d]"

text \<open>\<open>$module.querySelector('.' + c)\<close>: the first descendant with the class.\<close>

definition querySelector_class :: "document \<Rightarrow> node \<Rightarrow> string \<Rightarrow> node option" where
  "querySelector_class d m c =
     find (\<lambda>i. descendant d m i \<and> c \<in> set (classList (d ! i))) [0..<length d]"

text \<open>\<open>$module instanceof HTMLElement\<close>.\<close>

definition instanceof_HTMLElement :: "document \<Rightarrow> js_value \<Rightarrow> bool" where
  "instanceof_HTMLElement d v =
     (case v of
        Null \<Rightarrow> False
      | Elem m \<Rightarrow> m < length d \<and> (kind (d ! m) = HTMLInput \<or> kind (d ! m) = HTMLOther))"

section \<open>The page: document and attached listeners\<close>

datatype event_target = Window | Node node | MediaQuery string

datatype handler = SyncAllConditionalReveals | HandleClick | CheckMode | HandleMenuButtonClick

text \<open>
  A listener attached with \<open>addEventListener(type, callback)\<close>, or with the legacy
  \<open>MediaQueryList.addListener(callback)\<close>.
\<close>

datatype listener =
    EventListener event_target string handler
  | LegacyListener event_target handler

text \<open>
  \<open>support_checks\<close> counts the calls of \<open>getSupportedLevelMessage()\<close> made so far; it is
  not data of the page but a record of that one external call.
\<close>

record world =
  doc :: document
  listeners :: "listener list"
  support_checks :: nat

section \<open>Checkboxes\<close>

record checkboxes =
  cb_module :: "node option"
  cb_inputs :: "node list option"

definition Checkboxes :: "document \<Rightarrow> js_value \<Rightarrow> error + checkboxes" where
  "Checkboxes d v =
     (let this = \<lparr>cb_module = None, cb_inputs = None\<rparr> in
      if \<not> instanceof_HTMLElement d v then Inr this
      else (case v of
              Null \<Rightarrow> Inr this
            | Elem m \<Rightarrow>
                (let inputs = querySelectorAll_checkboxes d m in
                 if inputs = [] then Inr this
                 else Inr (this\<lparr>cb_module := Some m, cb_inputs := Some inputs\<rparr>))))"

text \<open>
  A method that changes the document returns whether it threw, and the document as it
  is when the method returns or throws.
\<close>

type_synonym outcome = "(error + unit) \<times> document"

text \<open>
  \<open>forEach\<close> over the (static) node list of a \<open>querySelectorAll\<close>: the callback runs on
  each element in turn; an exception ends the loop.
\<close>

fun forEach :: "(node \<Rightarrow> document \<Rightarrow> outcome) \<Rightarrow> node list \<Rightarrow> document \<Rightarrow> outcome" where
  "forEach f [] d = (Inr (), d)"
| "forEach f (x # xs) d =
     (case f x d of (Inl e, d') \<Rightarrow> (Inl e, d') | (Inr u, d') \<Rightarrow> forEach f xs d')"

text \<open>
  \<open>inputIsChecked.toString()\<close> throws a TypeError when \<open>$input.checked\<close> is \<open>undefined\<close>;
  that is before the first write.
\<close>

definition syncConditionalRevealWithInputState :: "document \<Rightarrow> node \<Rightarrow> outcome" where
  "syncConditionalRevealWithInputState d i =
     (let targetId = getAttribute d i ''aria-controls'' in
      if \<not> truthy targetId then (Inr (), d)
      else (case getElementById d (the targetId) of
              None \<Rightarrow> (Inr (), d)
            | Some t \<Rightarrow>
                if ''govuk-checkboxes__conditional'' \<in> set (classList (d ! t))
                then (case checked (d ! i) of
                        None \<Rightarrow> (Inl TypeError, d)
                      | Some inputIsChecked \<Rightarrow>
                          (let d1 = setAttribute d i ''aria-expanded'' (toString inputIsChecked)
                           in (Inr (), classList_toggle d1 t
                                 ''govuk-checkboxes__conditional--hidden'' (\<not> inputIsChecked))))
                else (Inr (), d)))"

definition syncAllConditionalReveals :: "document \<Rightarrow> node list \<Rightarrow> outcome" where
  "syncAllConditionalReveals d inputs =
     forEach (\<lambda>i d'. syncConditionalRevealWithInputState d' i) inputs d"

text \<open>The body of the first \<open>forEach\<close> of \<open>init\<close>, for one input; it cannot throw.\<close>

definition promote :: "document \<Rightarrow> node \<Rightarrow> document" where
  "promote d i =
     (let targetId = getAttribute d i ''data-aria-controls'' in
      if \<not> truthy targetId \<or> getElementById d (the targetId) = None then d
      else removeAttribute (setAttribute d i ''aria-controls'' (the targetId)) i
             ''data-aria-controls'')"

text \<open>
  \<open>init\<close> returns whether it threw, and the page as it is then. The \<open>pageshow\<close> listener
  is attached before the sync, the \<open>click\<close> listener after it.
\<close>

definition init :: "world \<Rightarrow> checkboxes \<Rightarrow> (error + unit) \<times> world" where
  "init w this =
     (case (cb_module this, cb_inputs this) of
        (Some m, Some inputs) \<Rightarrow>
          (let w1 = w\<lparr>doc := fold (\<lambda>i d. promote d i) inputs (doc w)\<rparr>;
               w2 = w1\<lparr>listeners := listeners w1 @
                         [EventListener Window ''pageshow'' SyncAllConditionalReveals]\<rparr>
           in case syncAllConditionalReveals (doc w2) inputs of
                (Inl e, d') \<Rightarrow> (Inl e, w2\<lparr>doc := d'\<rparr>)
              | (Inr u, d') \<Rightarrow>
                  (Inr (), w2\<lparr>doc := d',
                              listeners := listeners w2 @
                                [EventListener (Node m) ''click'' HandleClick]\<rparr>))
      | _ \<Rightarrow> (Inr (), w))"

text \<open>
  The \<open>name\<close> property of an HTMLInputElement reflects the attribute; it is empty without
  one. (The two methods below take an HTMLInputElement, as their parameter type says
  and as \<open>handleClick\<close> gives them.)
\<close>

definition name_prop :: "element \<Rightarrow> string" where
  "name_prop e = (case attrs e ''name'' of None \<Rightarrow> [] | Some n \<Rightarrow> n)"

text \<open>
  The two methods splice the name between double quotes into a selector. The texts of
  the selectors, as the template literals build them:
\<close>

definition dq :: char where
  "dq = CHR 0x22"

definition selector_named :: "string \<Rightarrow> string" where
  "selector_named n =
     ''input[type='' @ [dq] @ ''checkbox'' @ [dq] @ ''][name='' @ [dq] @ n @ [dq] @ '']''"

definition selector_exclusive_named :: "string \<Rightarrow> string" where
  "selector_exclusive_named n =
     ''input[data-behaviour='' @ [dq] @ ''exclusive'' @ [dq] @ ''][type='' @ [dq] @
     ''checkbox'' @ [dq] @ ''][name='' @ [dq] @ n @ [dq] @ '']''"

text \<open>
  What \<open>document.querySelectorAll\<close> answers depends on the name:
  \<^item> a plain name (no double quote, backslash, line break LF, FF or CR, or NUL) stands
    for itself between the quotes: the selector selects by that value of the \<open>name\<close>
    attribute;
  \<^item> in a name that is plain up to a double quote and has only ASCII letters and digits
    after it, the quote ends the attribute value, and what follows up to the quote that
    the template appends cannot close the attribute selector: the selector is not
    valid, and \<open>querySelectorAll\<close> throws a SyntaxError;
  \<^item> for every other name (escapes, or selector text after a quote) the answer is left
    to the selector engine, a parameter of this development.
\<close>

definition css_plain :: "string \<Rightarrow> bool" where
  "css_plain s =
     list_all (\<lambda>c. c \<notin> set [CHR 0x22, CHR 0x5C, CHR 0x0A, CHR 0x0C, CHR 0x0D, CHR 0x00]) s"

definition breaks_selector :: "string \<Rightarrow> bool" where
  "breaks_selector n =
     (let p = takeWhile (\<lambda>c. c \<noteq> dq) n; r = dropWhile (\<lambda>c. c \<noteq> dq) n
      in r \<noteq> [] \<and> css_plain p \<and>
         list_all (\<lambda>c. c \<in> set ''abcdefghijklmnopqrstuvwxyzABCDEFGHIJKLMNOPQRSTUVWXYZ0123456789'')
           (tl r))"

type_synonym engine = "document \<Rightarrow> string \<Rightarrow> error + node list"

definition querySelectorAll_named :: "engine \<Rightarrow> document \<Rightarrow> string \<Rightarrow> error + node list" where
  "querySelectorAll_named engine d n =
     (if css_plain n
      then Inr (filter (\<lambda>j. matches_input_checkbox (d ! j) \<and> attrs (d ! j) ''name'' = Some n)
                  [0..<length d])
      else if breaks_selector n then Inl (SyntaxError (selector_named n))
      else engine d (selector_named n))"

definition querySelectorAll_exclusive_named ::
  "engine \<Rightarrow> document \<Rightarrow> string \<Rightarrow> error + node list" where
  "querySelectorAll_exclusive_named engine d n =
     (if css_plain n
      then Inr (filter (\<lambda>j. attrs (d ! j) ''data-behaviour'' = Some ''exclusive'' \<and>
                             matches_input_checkbox (d ! j) \<and> attrs (d ! j) ''name'' = Some n)
                  [0..<length d])
      else if breaks_selector n then Inl (SyntaxError (selector_exclusive_named n))
      else engine d (selector_exclusive_named n))"

text \<open>The bodies of the two \<open>forEach\<close> callbacks, for the clicked input \<open>i\<close>.\<close>

definition uncheck_other :: "node \<Rightarrow> node \<Rightarrow> document \<Rightarrow> outcome" where
  "uncheck_other i j d =
     (let hasSameFormOwner = (form (d ! i) = form (d ! j)) in
      if hasSameFormOwner \<and> j \<noteq> i
      then syncConditionalRevealWithInputState (set_checked d j False) j
      else (Inr (), d))"

definition uncheck_exclusive :: "node \<Rightarrow> node \<Rightarrow> document \<Rightarrow> outcome" where
  "uncheck_exclusive i j d =
     (let hasSameFormOwner = (form (d ! i) = form (d ! j)) in
      if hasSameFormOwner
      then syncConditionalRevealWithInputState (set_checked d j False) j
      else (Inr (), d))"

definition unCheckAllInputsExcept :: "engine \<Rightarrow> document \<Rightarrow> node \<Rightarrow> outcome" where
  "unCheckAllInputsExcept engine d i =
     (case querySelectorAll_named engine d (name_prop (d ! i)) of
        Inl e \<Rightarrow> (Inl e, d)
      | Inr allInputsWithSameName \<Rightarrow> forEach (uncheck_other i) allInputsWithSameName d)"

definition unCheckExclusiveInputs :: "engine \<Rightarrow> document \<Rightarrow> node \<Rightarrow> outcome" where
  "unCheckExclusiveInputs engine d i =
     (case querySelectorAll_exclusive_named engine d (name_prop (d ! i)) of
        Inl e \<Rightarrow> (Inl e, d)
      | Inr allInputsWithSameNameAndExclusiveBehaviour \<Rightarrow>
          forEach (uncheck_exclusive i) allInputsWithSameNameAndExclusiveBehaviour d)"

text \<open>
  The click handler, for the event's target \<open>t\<close>. The browser has already toggled the
  \<open>checked\<close> state of a clicked checkbox when the handler runs, so \<open>checked\<close> here is the
  state the click leaves.
\<close>

definition handleClick :: "engine \<Rightarrow> document \<Rightarrow> node \<Rightarrow> outcome" where
  "handleClick engine d t =
     (if \<not> (t < length d \<and> kind (d ! t) = HTMLInput) \<or> \<not> type_is_checkbox (d ! t)
      then (Inr (), d)
      else (let hasAriaControls = getAttribute d t ''aria-controls'' in
            case (if truthy hasAriaControls
                  then syncConditionalRevealWithInputState d t else (Inr (), d)) of
              (Inl e, d1) \<Rightarrow> (Inl e, d1)
            | (Inr u, d1) \<Rightarrow>
                if checked (d1 ! t) \<noteq> Some True then (Inr (), d1)
                else (let hasBehaviourExclusive =
                            (getAttribute d1 t ''data-behaviour'' = Some ''exclusive'')
                      in if hasBehaviourExclusive then unCheckAllInputsExcept engine d1 t
                         else unCheckExclusiveInputs engine d1 t)))"

section \<open>The base component and the service header\<close>

text \<open>
  What the component reads from outside its files: the result of
  \<open>getSupportedLevelMessage()\<close>, the result of \<open>getBreakpoint('tablet')\<close> (the name of the
  custom property and its value, if any), whether the media query list has
  \<open>addEventListener\<close>, and whether the media query matches now.
\<close>

record env =
  supportedLevelMessage :: string
  breakpoint_property :: string
  breakpoint_value :: "string option"
  mql_has_addEventListener :: bool
  mql_matches :: bool

definition checkSupport :: "env \<Rightarrow> world \<Rightarrow> (error + unit) \<times> world" where
  "checkSupport en w =
     (let supportLevelMessage = supportedLevelMessage en;
          w1 = w\<lparr>support_checks := Suc (support_checks w)\<rparr>
      in if supportLevelMessage \<noteq> ''OK'' then (Inl (SupportError supportLevelMessage), w1)
         else (Inr (), w1))"

definition GOVUKFrontendComponent :: "env \<Rightarrow> world \<Rightarrow> (error + unit) \<times> world" where
  "GOVUKFrontendComponent en w = checkSupport en w"

record service_header =
  sh_module :: "node option"
  sh_menuButton :: "node option"
  sh_menu :: "node option"
  menuIsOpen :: bool
  mql :: "string option"

definition checkMode :: "env \<Rightarrow> service_header \<Rightarrow> document \<Rightarrow> document" where
  "checkMode en this d =
     (case (mql this, sh_menu this, sh_menuButton this) of
        (Some q, Some menu, Some button) \<Rightarrow>
          if mql_matches en
          then setAttribute (removeAttribute d menu ''hidden'') button ''hidden'' []
          else (let d1 = removeAttribute d button ''hidden'';
                    d2 = setAttribute d1 button ''aria-expanded'' (toString (menuIsOpen this))
                in if menuIsOpen this then removeAttribute d2 menu ''hidden''
                   else setAttribute d2 menu ''hidden'' [])
      | _ \<Rightarrow> d)"

definition handleMenuButtonClick ::
  "env \<Rightarrow> service_header \<Rightarrow> document \<Rightarrow> service_header \<times> document" where
  "handleMenuButtonClick en this d =
     (let this1 = this\<lparr>menuIsOpen := \<not> menuIsOpen this\<rparr> in (this1, checkMode en this1 d))"

definition setupResponsiveChecks ::
  "env \<Rightarrow> service_header \<Rightarrow> world \<Rightarrow> (error + service_header) \<times> world" where
  "setupResponsiveChecks en this w =
     (if \<not> truthy (breakpoint_value en)
      then (Inl (ElementError (CssCustomProperty (breakpoint_property en))), w)
      else (let q = ''(min-width: '' @ the (breakpoint_value en) @ '')'';
                this1 = this\<lparr>mql := Some q\<rparr>;
                w1 = w\<lparr>listeners := listeners w @
                         [if mql_has_addEventListener en
                          then EventListener (MediaQuery q) ''change'' CheckMode
                          else LegacyListener (MediaQuery q) CheckMode]\<rparr>
            in (Inr this1, w1\<lparr>doc := checkMode en this1 (doc w1)\<rparr>)))"

definition ServiceHeader :: "env \<Rightarrow> world \<Rightarrow> js_value \<Rightarrow> (error + service_header) \<times> world" where
  "ServiceHeader en w v =
     (case GOVUKFrontendComponent en w of
        (Inl e, w0) \<Rightarrow> (Inl e, w0)
      | (Inr u, w0) \<Rightarrow>
          (let this = \<lparr>sh_module = None, sh_menuButton = None, sh_menu = None,
                       menuIsOpen = False, mql = None\<rparr>
           in case v of
                Null \<Rightarrow> (Inl (ElementError RootElement), w0)
              | Elem m \<Rightarrow>
                  (let this1 = this\<lparr>sh_module := Some m\<rparr> in
                   case querySelector_class (doc w0) m ''govuk-js-service-header-toggle'' of
                     None \<Rightarrow> (Inr this1, w0)
                   | Some b \<Rightarrow>
                       (let menuId = getAttribute (doc w0) b ''aria-controls'' in
                        if \<not> truthy menuId then (Inl (ElementError NavButtonAriaControls), w0)
                        else (case getElementById (doc w0) (the menuId) of
                                None \<Rightarrow> (Inl (ElementError (Navigation (the menuId))), w0)
                              | Some mn \<Rightarrow>
                                  (let this2 = this1\<lparr>sh_menu := Some mn, sh_menuButton := Some b\<rparr>
                                   in case setupResponsiveChecks en this2 w0 of
                                        (Inl e, w1) \<Rightarrow> (Inl e, w1)
                                      | (Inr this3, w1) \<Rightarrow>
                                          (Inr this3,
                                           w1\<lparr>listeners := listeners w1 @
                                                [EventListener (Node b) ''click''
                                                   HandleMenuButtonClick]\<rparr>)))))))"

section \<open>Examples from fixtures\<close>

text \<open>
  A value read from a fixtures file: \<open>undefined\<close> for a member that is absent, \<open>null\<close>,
  a string, number or boolean (by its text), or an object with its members (an array
  counts as an object). One entry of the \<open>fixtures\<close> array has a name, options and html.
  The files of the installed package are a parameter: a map from component names to
  their arrays.
\<close>

datatype js = JUndefined | JNull | JPrimitive string | JObject "(string \<times> js) list"

record fixture =
  name :: string
  options :: js
  html :: string

text \<open>
  The object that \<open>getExamples\<close> fills: its own properties and its prototype, which is
  \<open>Object.prototype\<close> for an object literal and can be replaced by \<open>null\<close> or by an
  object.
\<close>

datatype prototype = ObjectPrototype | NullPrototype | ValuePrototype js

record js_object =
  own :: "string \<rightharpoonup> js"
  proto :: prototype

definition has_own_property :: "js \<Rightarrow> string \<Rightarrow> bool" where
  "has_own_property v k = (case v of JObject members \<Rightarrow> k \<in> fst ` set members | _ \<Rightarrow> False)"

text \<open>
  Whether an assignment to the key \<open>__proto__\<close> reaches the setter of
  \<open>Object.prototype\<close>: it is inherited unless the prototype is \<open>null\<close>, or is an object
  that has a member \<open>__proto__\<close> of its own.
\<close>

definition inherits_proto_setter :: "prototype \<Rightarrow> bool" where
  "inherits_proto_setter p =
     (case p of
        ObjectPrototype \<Rightarrow> True
      | NullPrototype \<Rightarrow> False
      | ValuePrototype v \<Rightarrow> \<not> has_own_property v ''__proto__'')"

text \<open>
  The assignment \<open>ob[k] = v\<close>. It writes an own property, except that for the key
  \<open>__proto__\<close>, when the object has no such property and inherits the setter, the
  setter runs: an object or \<open>null\<close> replaces the prototype, any other value is ignored.
\<close>

definition assign :: "js_object \<Rightarrow> string \<Rightarrow> js \<Rightarrow> js_object" where
  "assign ob k v =
     (if own ob k \<noteq> None then ob\<lparr>own := (own ob)(k \<mapsto> v)\<rparr>
      else if k = ''__proto__'' \<and> inherits_proto_setter (proto ob)
      then (case v of
              JObject members \<Rightarrow> ob\<lparr>proto := ValuePrototype v\<rparr>
            | JNull \<Rightarrow> ob\<lparr>proto := NullPrototype\<rparr>
            | _ \<Rightarrow> ob)
      else ob\<lparr>own := (own ob)(k \<mapsto> v)\<rparr>)"

definition getComponentFixtures ::
  "(string \<rightharpoonup> fixture list) \<Rightarrow> string \<Rightarrow> error + fixture list" where
  "getComponentFixtures pkg componentName =
     (case pkg componentName of
        None \<Rightarrow> Inl (ModuleNotFound componentName)
      | Some fixtures \<Rightarrow> Inr fixtures)"

definition getExamples ::
  "(string \<rightharpoonup> fixture list) \<Rightarrow> string \<Rightarrow> error + js_object" where
  "getExamples pkg componentName =
     (case getComponentFixtures pkg componentName of
        Inl e \<Rightarrow> Inl e
      | Inr fixtures \<Rightarrow>
          Inr (fold (\<lambda>example examples. assign examples (name example) (options example))
                 fixtures \<lparr>own = Map.empty, proto = ObjectPrototype\<rparr>))"

section \<open>Notions used to state the properties\<close>

text \<open>
  The conditionally revealed block of an input, as \<open>syncConditionalRevealWithInputState\<close>
  finds it: the element whose id is the input's non-empty \<open>aria-controls\<close>, when it has
  the class \<open>govuk-checkboxes__conditional\<close>.
\<close>

definition reveal_target :: "document \<Rightarrow> node \<Rightarrow> node option" where
  "reveal_target d i =
     (let targetId = getAttribute d i ''aria-controls'' in
      if \<not> truthy targetId then None
      else (case getElementById d (the targetId) of
              None \<Rightarrow> None
            | Some t \<Rightarrow>
                if ''govuk-checkboxes__conditional'' \<in> set (classList (d ! t)) then Some t
                else None))"

text \<open>
  \<open>frame d d'\<close>: the document \<open>d'\<close> has the elements of \<open>d\<close>, with the same kind, parent
  and form owner, the same attributes except possibly \<open>aria-expanded\<close>, and the same
  class tokens except possibly \<open>govuk-checkboxes__conditional--hidden\<close>. It says nothing
  about the \<open>checked\<close> states.
\<close>

definition frame :: "document \<Rightarrow> document \<Rightarrow> bool" where
  "frame d d' =
     (length d' = length d \<and>
      (\<forall>j<length d.
         kind (d' ! j) = kind (d ! j) \<and> parent (d' ! j) = parent (d ! j) \<and>
         form (d' ! j) = form (d ! j) \<and>
         (\<forall>a. a \<noteq> ''aria-expanded'' \<longrightarrow> attrs (d' ! j) a = attrs (d ! j) a) \<and>
         (\<forall>c. c \<noteq> ''govuk-checkboxes__conditional--hidden'' \<longrightarrow>
              (c \<in> set (classList (d' ! j))) = (c \<in> set (classList (d ! j))))))"

text \<open>
  An element after the promotion step of \<open>init\<close>: with a non-empty \<open>data-aria-controls\<close>
  that names an element of the document \<open>d\<close>, the value moves to \<open>aria-controls\<close>;
  otherwise the element is as it was.
\<close>

definition promoted :: "document \<Rightarrow> element \<Rightarrow> element" where
  "promoted d e =
     (let targetId = attrs e ''data-aria-controls'' in
      if \<not> truthy targetId \<or> getElementById d (the targetId) = None then e
      else e\<lparr>attrs := ((attrs e)(''aria-controls'' \<mapsto> the targetId))(''data-aria-controls'' := None)\<rparr>)"



text \<open>Elements for writing example documents.\<close>

definition input_element ::
  "node option \<Rightarrow> form_value \<Rightarrow> (string \<times> string) list \<Rightarrow> bool \<Rightarrow> element" where
  "input_element p f as c =
     \<lparr>kind = HTMLInput, parent = p, attrs = map_of as, classList = [], checked = Some c,
      form = f\<rparr>"

definition input_checkbox ::
  "node option \<Rightarrow> form_value \<Rightarrow> (string \<times> string) list \<Rightarrow> bool \<Rightarrow> element" where
  "input_checkbox p f as c = input_element p f ((''type'', ''checkbox'') # as) c"

definition html_element ::
  "node option \<Rightarrow> (string \<times> string) list \<Rightarrow> string list \<Rightarrow> element" where
  "html_element p as cs =
     \<lparr>kind = HTMLOther, parent = p, attrs = map_of as, classList = cs, checked = None,
      form = FormUndefined\<rparr>"

text \<open>
  A selector engine that selects nothing. It stands for the engine in the examples; in
  those with plain names, and in those where the selector is not valid, it is not
  consulted.
\<close>

definition empty_engine :: engine where
  "empty_engine d selector = Inr []"

text \<open>
  A form (0) with four checked checkboxes: "paper" (1), the exclusive "none" (2) and
  "glass" (4) share the name \<open>waste\<close>, the third (3) has another name. The type of "glass"
  is written \<open>CHECKBOX\<close>.
\<close>

definition waste_form :: document where
  "waste_form =
     [html_element None [] [],
      input_checkbox (Some 0) (FormOwner 0) [(''name'', ''waste'')] True,
      input_checkbox (Some 0) (FormOwner 0)
        [(''name'', ''waste''), (''data-behaviour'', ''exclusive'')] True,
      input_checkbox (Some 0) (FormOwner 0) [(''name'', ''colour'')] True,
      input_element (Some 0) (FormOwner 0) [(''type'', ''CHECKBOX''), (''name'', ''waste'')] True]"

text \<open>
  A form (0) with a checked plain checkbox (1) and a checked exclusive checkbox (2),
  neither with a \<open>name\<close> attribute: the \<open>name\<close> property of both is the empty string.
\<close>

definition nameless_form :: document where
  "nameless_form =
     [html_element None [] [],
      input_checkbox (Some 0) (FormOwner 0) [] True,
      input_checkbox (Some 0) (FormOwner 0) [(''data-behaviour'', ''exclusive'')] True]"

text \<open>
  The same form with both checkboxes named \<open>a"b\<close> (a letter, a double quote, a letter).
\<close>

definition quote_form :: document where
  "quote_form =
     [html_element None [] [],
      input_checkbox (Some 0) (FormOwner 0) [(''name'', [CHR ''a'', CHR 0x22, CHR ''b''])] True,
      input_checkbox (Some 0) (FormOwner 0)
        [(''name'', [CHR ''a'', CHR 0x22, CHR ''b'']), (''data-behaviour'', ''exclusive'')] True]"

text \<open>
  A page whose only element is a paragraph; a page with a text input (1) in a block (0);
  and a page with one checkbox (1) in a block (0), its type written \<open>CHECKBOX\<close>.
\<close>

definition plain_page :: world where
  "plain_page = \<lparr>doc = [html_element None [] []], listeners = [], support_checks = 0\<rparr>"

definition text_page :: world where
  "text_page =
     \<lparr>doc = [html_element None [] [],
             input_element (Some 0) FormNull [(''type'', ''text''), (''name'', ''q'')] False],
      listeners = [], support_checks = 0\<rparr>"

definition upper_page :: world where
  "upper_page =
     \<lparr>doc = [html_element None [] [],
             input_element (Some 0) FormNull [(''type'', ''CHECKBOX'')] False],
      listeners = [], support_checks = 0\<rparr>"


text \<open>
  A form (0) with an unchecked checkbox (1) that reveals the block (2), and a checked
  checkbox (3) of the same name.
\<close>

definition contact_form :: document where
  "contact_form =
     [html_element None [] [],
      input_checkbox (Some 0) (FormOwner 0)
        [(''name'', ''contact''), (''aria-controls'', ''conditional-phone''),
         (''aria-expanded'', ''true'')] False,
      html_element (Some 0) [(''id'', ''conditional-phone'')] [''govuk-checkboxes__conditional''],
      input_checkbox (Some 0) (FormOwner 0) [(''name'', ''contact'')] True]"



text \<open>
  What the service header shows after a run of \<open>checkMode\<close>, for the menu and the toggle
  button: when the media query matches, the menu has no \<open>hidden\<close> attribute and the button
  has one; otherwise the button has none, its \<open>aria-expanded\<close> is the text of the open
  state, and the menu has \<open>hidden\<close> exactly when it is not open.
\<close>

definition mode_shown :: "env \<Rightarrow> bool \<Rightarrow> node \<Rightarrow> node \<Rightarrow> document \<Rightarrow> bool" where
  "mode_shown en isOpen menu button d =
     (if mql_matches en
      then attrs (d ! menu) ''hidden'' = None \<and> attrs (d ! button) ''hidden'' \<noteq> None
      else attrs (d ! button) ''hidden'' = None \<and>
           attrs (d ! button) ''aria-expanded'' = Some (toString isOpen) \<and>
           ((attrs (d ! menu) ''hidden'' \<noteq> None) = (\<not> isOpen)))"

text \<open>
  Environments: a supported browser on a wide viewport, the same on a narrow viewport, a
  browser that fails the support check, and a page without the tablet breakpoint property.
  Pages: a service header (0) with its toggle button (1) and navigation list (2); one whose
  button has no \<open>aria-controls\<close>; one whose button names a list that does not exist; and
  one whose button names itself.
\<close>

definition supported_env :: env where
  "supported_env =
     \<lparr>supportedLevelMessage = ''OK'',
      breakpoint_property = ''--govuk-frontend-breakpoint-tablet'',
      breakpoint_value = Some ''40.0625em'',
      mql_has_addEventListener = True, mql_matches = True\<rparr>"

definition narrow_env :: env where
  "narrow_env = supported_env\<lparr>mql_matches := False\<rparr>"

definition unsupported_env :: env where
  "unsupported_env = supported_env\<lparr>supportedLevelMessage := ''not supported''\<rparr>"

definition no_breakpoint_env :: env where
  "no_breakpoint_env = supported_env\<lparr>breakpoint_value := None\<rparr>"

definition header_page :: world where
  "header_page =
     \<lparr>doc =
        [html_element None [] [''govuk-service-header''],
         html_element (Some 0) [(''aria-controls'', ''navigation''), (''hidden'', [])]
           [''govuk-js-service-header-toggle''],
         html_element (Some 0) [(''id'', ''navigation'')] []],
      listeners = [], support_checks = 0\<rparr>"

definition header_instance :: service_header where
  "header_instance =
     \<lparr>sh_module = Some 0, sh_menuButton = Some 1, sh_menu = Some 2, menuIsOpen = False,
      mql = Some ''(min-width: 40.0625em)''\<rparr>"

definition no_controls_page :: world where
  "no_controls_page =
     \<lparr>doc =
        [html_element None [] [''govuk-service-header''],
         html_element (Some 0) [] [''govuk-js-service-header-toggle'']],
      listeners = [], support_checks = 0\<rparr>"

definition missing_menu_page :: world where
  "missing_menu_page =
     \<lparr>doc =
        [html_element None [] [''govuk-service-header''],
         html_element (Some 0) [(''aria-controls'', ''navigation'')]
           [''govuk-js-service-header-toggle'']],
      listeners = [], support_checks = 0\<rparr>"

definition alias_page :: world where
  "alias_page =
     \<lparr>doc =
        [html_element None [] [''govuk-service-header''],
         html_element (Some 0) [(''id'', ''navigation''), (''aria-controls'', ''navigation'')]
           [''govuk-js-service-header-toggle'']],
      listeners = [], support_checks = 0\<rparr>"

definition alias_instance :: service_header where
  "alias_instance =
     \<lparr>sh_module = Some 0, sh_menuButton = Some 1, sh_menu = Some 1, menuIsOpen = False,
      mql = Some ''(min-width: 40.0625em)''\<rparr>"

text \<open>
  Fixtures of a component with a name used twice, and a package that holds them.
  Packages whose component has a fixture named \<open>__proto__\<close>: one with an object as
  options, one with a string as options, and one with two such fixtures, the first with
  \<open>null\<close> as options.
\<close>

definition select_fixtures :: "fixture list" where
  "select_fixtures =
     [\<lparr>name = ''default'', options = JObject [(''id'', JPrimitive ''select-1'')],
       html = ''<select id=1>''\<rparr>,
      \<lparr>name = ''with hint'', options = JObject [(''hint'', JPrimitive ''text'')],
       html = ''<select id=2>''\<rparr>,
      \<lparr>name = ''default'', options = JObject [(''id'', JPrimitive ''select-3'')],
       html = ''<select id=3>''\<rparr>]"

definition select_package :: "string \<rightharpoonup> fixture list" where
  "select_package = [''select'' \<mapsto> select_fixtures]"

definition proto_package :: "string \<rightharpoonup> fixture list" where
  "proto_package =
     [''select'' \<mapsto>
        [\<lparr>name = ''__proto__'', options = JObject [(''id'', JPrimitive ''select-1'')],
          html = []\<rparr>]]"

definition proto_text_package :: "string \<rightharpoonup> fixture list" where
  "proto_text_package =
     [''select'' \<mapsto> [\<lparr>name = ''__proto__'', options = JPrimitive ''text'', html = []\<rparr>]]"

definition proto_twice_package :: "string \<rightharpoonup> fixture list" where
  "proto_twice_package =
     [''select'' \<mapsto>
        [\<lparr>name = ''__proto__'', options = JNull, html = []\<rparr>,
         \<lparr>name = ''__proto__'', options = JObject [(''id'', JPrimitive ''select-2'')],
          html = []\<rparr>]]"

section \<open>Properties\<close>

subsection \<open>Elements of an updated document\<close>

lemma nth_upd: "j < length d \<Longrightarrow> (d[i := x]) ! j = (if i = j then x else d ! j)"
  by auto

lemma frame_refl: "frame d d"
  by (simp add: frame_def)

lemma frame_trans: "frame d d1 \<Longrightarrow> frame d1 d2 \<Longrightarrow> frame d d2"
  by (simp add: frame_def)

lemma frame_length: "frame d d' \<Longrightarrow> length d' = length d"
  by (simp add: frame_def)


lemma frame_set_checked: "frame d (set_checked d i b)"
  by (simp add: frame_def set_checked_def nth_upd)

lemma frame_setAttribute_expanded: "frame d (setAttribute d i ''aria-expanded'' v)"
  by (simp add: frame_def setAttribute_def nth_upd)

lemma frame_classList_toggle_hidden:
  "frame d (classList_toggle d i ''govuk-checkboxes__conditional--hidden'' b)"
  by (auto simp add: frame_def classList_toggle_def nth_upd)

lemma frame_attr:
  "frame d d' \<Longrightarrow> j < length d \<Longrightarrow> a \<noteq> ''aria-expanded'' \<Longrightarrow> attrs (d' ! j) a = attrs (d ! j) a"
  by (simp add: frame_def)

lemma frame_form: "frame d d' \<Longrightarrow> j < length d \<Longrightarrow> form (d' ! j) = form (d ! j)"
  by (simp add: frame_def)

lemma frame_kind: "frame d d' \<Longrightarrow> j < length d \<Longrightarrow> kind (d' ! j) = kind (d ! j)"
  by (simp add: frame_def)

lemma frame_type_is_checkbox:
  "frame d d' \<Longrightarrow> j < length d \<Longrightarrow> type_is_checkbox (d' ! j) = type_is_checkbox (d ! j)"
  by (simp add: frame_def type_is_checkbox_def)

lemma frame_matches_input_checkbox:
  "frame d d' \<Longrightarrow> j < length d \<Longrightarrow>
   matches_input_checkbox (d' ! j) = matches_input_checkbox (d ! j)"
  by (simp add: matches_input_checkbox_def frame_kind frame_type_is_checkbox)

lemma frame_name_prop:
  "frame d d' \<Longrightarrow> j < length d \<Longrightarrow> name_prop (d' ! j) = name_prop (d ! j)"
  by (simp add: frame_def name_prop_def)


lemma getElementById_less: "getElementById d x = Some r \<Longrightarrow> r < length d"
  unfolding getElementById_def
  by (auto simp add: find_Some_iff split: if_splits)

lemma getElementById_cong:
  "length d' = length d \<Longrightarrow> (\<And>j. j < length d \<Longrightarrow> attrs (d' ! j) ''id'' = attrs (d ! j) ''id'') \<Longrightarrow>
   getElementById d' x = getElementById d x"
  unfolding getElementById_def by (auto intro!: find_cong)





lemma frame_querySelectorAll_named:
  "frame d d' \<Longrightarrow> css_plain n \<Longrightarrow>
   querySelectorAll_named engine d' n = querySelectorAll_named engine d n"
  unfolding querySelectorAll_named_def
  by (auto simp add: frame_length frame_matches_input_checkbox frame_attr intro!: filter_cong)

lemma frame_querySelectorAll_exclusive_named:
  "frame d d' \<Longrightarrow> css_plain n \<Longrightarrow>
   querySelectorAll_exclusive_named engine d' n = querySelectorAll_exclusive_named engine d n"
  unfolding querySelectorAll_exclusive_named_def
  by (auto simp add: frame_length frame_matches_input_checkbox frame_attr intro!: filter_cong)

lemma checked_setAttribute [simp]: "checked (setAttribute d i a v ! j) = checked (d ! j)"
  unfolding setAttribute_def
  by (cases "i = j"; cases "i < length d") (simp_all add: list_update_beyond)

lemma checked_classList_toggle [simp]: "checked (classList_toggle d i c b ! j) = checked (d ! j)"
  unfolding classList_toggle_def
  by (cases "i = j"; cases "i < length d") (simp_all add: list_update_beyond)

lemma attrs_classList_toggle [simp]: "attrs (classList_toggle d i c b ! j) = attrs (d ! j)"
  unfolding classList_toggle_def
  by (cases "i = j"; cases "i < length d") (simp_all add: list_update_beyond)

lemma classList_setAttribute [simp]: "classList (setAttribute d i a v ! j) = classList (d ! j)"
  unfolding setAttribute_def
  by (cases "i = j"; cases "i < length d") (simp_all add: list_update_beyond)

lemma attrs_set_checked [simp]: "attrs (set_checked d i b ! j) = attrs (d ! j)"
  unfolding set_checked_def
  by (cases "i = j"; cases "i < length d") (simp_all add: list_update_beyond)

lemma classList_set_checked [simp]: "classList (set_checked d i b ! j) = classList (d ! j)"
  unfolding set_checked_def
  by (cases "i = j"; cases "i < length d") (simp_all add: list_update_beyond)

lemma length_setAttribute [simp]: "length (setAttribute d i a v) = length d"
  by (simp add: setAttribute_def)

lemma length_removeAttribute [simp]: "length (removeAttribute d i a) = length d"
  by (simp add: removeAttribute_def)

lemma length_classList_toggle [simp]: "length (classList_toggle d i c b) = length d"
  by (simp add: classList_toggle_def)

lemma length_set_checked [simp]: "length (set_checked d i b) = length d"
  by (simp add: set_checked_def)

lemma checked_set_checked:
  "j < length d \<Longrightarrow> checked (set_checked d i b ! j) = (if i = j then Some b else checked (d ! j))"
  by (simp add: set_checked_def nth_upd)

lemma attrs_setAttribute:
  "j < length d \<Longrightarrow>
   attrs (setAttribute d i a v ! j) = (if i = j then (attrs (d ! j))(a \<mapsto> v) else attrs (d ! j))"
  by (simp add: setAttribute_def nth_upd)

lemma attrs_removeAttribute:
  "j < length d \<Longrightarrow>
   attrs (removeAttribute d i a ! j) = (if i = j then (attrs (d ! j))(a := None) else attrs (d ! j))"
  by (simp add: removeAttribute_def nth_upd)

lemma classList_classList_toggle:
  "j < length d \<Longrightarrow>
   classList (classList_toggle d i c b ! j) =
     (if i = j
      then (if b then (if c \<in> set (classList (d ! j)) then classList (d ! j)
                       else classList (d ! j) @ [c])
            else filter (\<lambda>x. x \<noteq> c) (classList (d ! j)))
      else classList (d ! j))"
  by (simp add: classList_toggle_def nth_upd)


subsection \<open>The sync of one input\<close>

lemma sync_alt:
  "syncConditionalRevealWithInputState d i =
     (case reveal_target d i of
        None \<Rightarrow> (Inr (), d)
      | Some r \<Rightarrow>
          (case checked (d ! i) of
             None \<Rightarrow> (Inl TypeError, d)
           | Some b \<Rightarrow>
               (Inr (), classList_toggle (setAttribute d i ''aria-expanded'' (toString b)) r
                          ''govuk-checkboxes__conditional--hidden'' (\<not> b))))"
  unfolding syncConditionalRevealWithInputState_def reveal_target_def Let_def
  by (simp split: option.splits)

lemma fst_sync:
  "fst (syncConditionalRevealWithInputState d i) =
     (if reveal_target d i \<noteq> None \<and> checked (d ! i) = None then Inl TypeError else Inr ())"
  by (auto simp add: sync_alt split: option.splits)

lemma frame_sync: "frame d (snd (syncConditionalRevealWithInputState d i))"
  by (auto simp add: sync_alt frame_refl split: option.splits
      intro: frame_trans [OF frame_setAttribute_expanded frame_classList_toggle_hidden])

lemma length_sync [simp]: "length (snd (syncConditionalRevealWithInputState d i)) = length d"
  using frame_sync [of d i] by (simp add: frame_def)

lemma checked_sync [simp]:
  "checked (snd (syncConditionalRevealWithInputState d i) ! j) = checked (d ! j)"
  by (simp add: sync_alt split: option.splits)

lemma attrs_sync:
  "j < length d \<Longrightarrow>
   attrs (snd (syncConditionalRevealWithInputState d i) ! j) =
     (case (reveal_target d i, checked (d ! i)) of
        (Some r, Some b) \<Rightarrow>
          if j = i then (attrs (d ! j))(''aria-expanded'' \<mapsto> toString b) else attrs (d ! j)
      | _ \<Rightarrow> attrs (d ! j))"
  by (auto simp add: sync_alt attrs_setAttribute split: option.splits)


lemma classList_sync:
  "j < length d \<Longrightarrow> reveal_target d i \<noteq> Some j \<Longrightarrow>
   classList (snd (syncConditionalRevealWithInputState d i) ! j) = classList (d ! j)"
  by (auto simp add: sync_alt classList_classList_toggle split: option.splits)

subsection \<open>Loops\<close>

lemma forEach_Cons_ok:
  "fst (f x d) = Inr () \<Longrightarrow> forEach f (x # xs) d = forEach f xs (snd (f x d))"
  by (cases "f x d") (auto split: sum.splits)

lemma forEach_Cons_throw:
  "fst (f x d) = Inl e \<Longrightarrow> forEach f (x # xs) d = (Inl e, snd (f x d))"
  by (cases "f x d") (auto split: sum.splits)

subsection \<open>Unchecking the other inputs\<close>

lemma uncheck_sync_fst:
  "j < length d \<Longrightarrow> fst (syncConditionalRevealWithInputState (set_checked d j False) j) = Inr ()"
  by (simp add: fst_sync checked_set_checked)

lemma uncheck_sync_frame:
  "frame d (snd (syncConditionalRevealWithInputState (set_checked d j False) j))"
  by (rule frame_trans [OF frame_set_checked frame_sync])

lemma uncheck_sync_checked:
  "k < length d \<Longrightarrow>
   checked (snd (syncConditionalRevealWithInputState (set_checked d j False) j) ! k) =
     (if k = j then Some False else checked (d ! k))"
  by (auto simp add: checked_set_checked)

lemma uncheck_other_fst: "j < length d \<Longrightarrow> fst (uncheck_other t j d) = Inr ()"
  unfolding uncheck_other_def Let_def by (simp add: uncheck_sync_fst)

lemma uncheck_other_frame: "frame d (snd (uncheck_other t j d))"
  unfolding uncheck_other_def Let_def by (simp add: frame_refl uncheck_sync_frame)

lemma uncheck_other_checked:
  "k < length d \<Longrightarrow>
   checked (snd (uncheck_other t j d) ! k) =
     (if k = j \<and> form (d ! t) = form (d ! j) \<and> j \<noteq> t then Some False else checked (d ! k))"
  unfolding uncheck_other_def Let_def by (auto simp add: checked_set_checked)

lemma forEach_uncheck_other:
  "t < length d \<Longrightarrow> \<forall>j\<in>set js. j < length d \<Longrightarrow>
   fst (forEach (uncheck_other t) js d) = Inr () \<and>
   frame d (snd (forEach (uncheck_other t) js d)) \<and>
   (\<forall>k<length d. checked (snd (forEach (uncheck_other t) js d) ! k) =
      (if k \<in> set js \<and> form (d ! t) = form (d ! k) \<and> k \<noteq> t then Some False
       else checked (d ! k)))"
proof (induction js arbitrary: d)
  case Nil
  then show ?case by (simp add: frame_refl)
next
  case (Cons j js)
  let ?d1 = "snd (uncheck_other t j d)"
  let ?res = "forEach (uncheck_other t) js ?d1"
  have j: "j < length d" using Cons.prems(2) by simp
  have step: "forEach (uncheck_other t) (j # js) d = ?res"
    using uncheck_other_fst [OF j] by (rule forEach_Cons_ok)
  have f1: "frame d ?d1" by (rule uncheck_other_frame)
  have len: "length ?d1 = length d" using f1 by (rule frame_length)
  have t1: "t < length ?d1" using Cons.prems(1) len by simp
  have js1: "\<forall>j\<in>set js. j < length ?d1" using Cons.prems(2) len by simp
  note ih = Cons.IH [OF t1 js1]
  have fo: "\<And>k. k < length d \<Longrightarrow> form (?d1 ! k) = form (d ! k)"
    using f1 by (rule frame_form)
  have fr: "frame d (snd ?res)" using f1 ih by (blast intro: frame_trans)
  have ch: "checked (snd ?res ! k) =
      (if k \<in> set (j # js) \<and> form (d ! t) = form (d ! k) \<and> k \<noteq> t then Some False
       else checked (d ! k))"
    if k: "k < length d" for k
  proof -
    have "checked (snd ?res ! k) =
        (if k \<in> set js \<and> form (?d1 ! t) = form (?d1 ! k) \<and> k \<noteq> t then Some False
         else checked (?d1 ! k))"
      using ih k len by simp
    then show ?thesis
      using fo [OF k] fo [OF Cons.prems(1)] uncheck_other_checked [OF k, of t j] by auto
  qed
  show ?case unfolding step using ih fr ch by simp
qed

lemma set_querySelectorAll_named:
  "css_plain n \<Longrightarrow>
   \<exists>js. querySelectorAll_named engine d n = Inr js \<and>
     set js = {j. j < length d \<and> matches_input_checkbox (d ! j) \<and> attrs (d ! j) ''name'' = Some n}"
  by (auto simp add: querySelectorAll_named_def)

lemma unCheckAllInputsExcept_result:
  assumes t: "t < length d" and plain: "css_plain (name_prop (d ! t))"
  shows "fst (unCheckAllInputsExcept engine d t) = Inr () \<and>
     frame d (snd (unCheckAllInputsExcept engine d t)) \<and>
     (\<forall>j<length d. checked (snd (unCheckAllInputsExcept engine d t) ! j) =
        (if j \<noteq> t \<and> matches_input_checkbox (d ! j) \<and>
            attrs (d ! j) ''name'' = Some (name_prop (d ! t)) \<and> form (d ! j) = form (d ! t)
         then Some False else checked (d ! j)))"
proof -
  from set_querySelectorAll_named [OF plain, of engine d] obtain js where
    q: "querySelectorAll_named engine d (name_prop (d ! t)) = Inr js" and
    s: "set js = {j. j < length d \<and> matches_input_checkbox (d ! j) \<and>
          attrs (d ! j) ''name'' = Some (name_prop (d ! t))}"
    by blast
  have r: "unCheckAllInputsExcept engine d t = forEach (uncheck_other t) js d"
    by (simp add: unCheckAllInputsExcept_def q)
  have js: "\<forall>j\<in>set js. j < length d" using s by simp
  note fo = forEach_uncheck_other [OF t js]
  have "\<forall>j<length d. checked (snd (forEach (uncheck_other t) js d) ! j) =
        (if j \<noteq> t \<and> matches_input_checkbox (d ! j) \<and>
            attrs (d ! j) ''name'' = Some (name_prop (d ! t)) \<and> form (d ! j) = form (d ! t)
         then Some False else checked (d ! j))"
    using fo s by auto
  with fo show ?thesis unfolding r by blast
qed

lemma handleClick_input:
  "t < length d \<Longrightarrow> kind (d ! t) = HTMLInput \<Longrightarrow> type_is_checkbox (d ! t) \<Longrightarrow>
   handleClick engine d t =
     (case (if truthy (attrs (d ! t) ''aria-controls'')
            then syncConditionalRevealWithInputState d t else (Inr (), d)) of
        (Inl e, d1) \<Rightarrow> (Inl e, d1)
      | (Inr u, d1) \<Rightarrow>
          if checked (d1 ! t) \<noteq> Some True then (Inr (), d1)
          else if attrs (d1 ! t) ''data-behaviour'' = Some ''exclusive''
               then unCheckAllInputsExcept engine d1 t
               else unCheckExclusiveInputs engine d1 t)"
  unfolding handleClick_def Let_def getAttribute_def by simp

lemma handleClick_first:
  assumes "checked (d ! t) \<noteq> None \<or> reveal_target d t = None"
  shows "\<exists>d1. (if truthy (attrs (d ! t) ''aria-controls'')
               then syncConditionalRevealWithInputState d t else (Inr (), d)) = (Inr (), d1) \<and>
           (d1 = d \<or> d1 = snd (syncConditionalRevealWithInputState d t))"
proof (cases "truthy (attrs (d ! t) ''aria-controls'')")
  case True
  have "fst (syncConditionalRevealWithInputState d t) = Inr ()"
    using assms by (auto simp add: fst_sync)
  then have "syncConditionalRevealWithInputState d t =
      (Inr (), snd (syncConditionalRevealWithInputState d t))"
    by (simp add: prod_eq_iff)
  with True show ?thesis
    by (intro exI [of _ "snd (syncConditionalRevealWithInputState d t)"]) simp
next
  case False
  then show ?thesis by simp
qed

lemma handleClick_checked:
  assumes t: "t < length d" and k: "kind (d ! t) = HTMLInput" and ty: "type_is_checkbox (d ! t)"
    and ch: "checked (d ! t) = Some True"
  shows "\<exists>d1. frame d d1 \<and> (\<forall>j. checked (d1 ! j) = checked (d ! j)) \<and>
     handleClick engine d t =
       (if attrs (d ! t) ''data-behaviour'' = Some ''exclusive''
        then unCheckAllInputsExcept engine d1 t else unCheckExclusiveInputs engine d1 t)"
proof -
  from handleClick_first [of d t] ch obtain d1 where
    s: "(if truthy (attrs (d ! t) ''aria-controls'')
         then syncConditionalRevealWithInputState d t else (Inr (), d)) = (Inr (), d1)" and
    c: "d1 = d \<or> d1 = snd (syncConditionalRevealWithInputState d t)"
    by auto
  have f: "frame d d1" using c by (auto simp add: frame_refl frame_sync)
  have c1: "\<And>j. checked (d1 ! j) = checked (d ! j)" using c by auto
  have b: "attrs (d1 ! t) ''data-behaviour'' = attrs (d ! t) ''data-behaviour''"
    using f t by (rule frame_attr) simp
  have "handleClick engine d t =
       (if attrs (d ! t) ''data-behaviour'' = Some ''exclusive''
        then unCheckAllInputsExcept engine d1 t else unCheckExclusiveInputs engine d1 t)"
    unfolding handleClick_input [OF t k ty] s by (simp add: c1 ch b)
  with f c1 show ?thesis by blast
qed

subsection \<open>Unchecking the exclusive inputs\<close>









subsection \<open>A click that leaves the input unchecked\<close>

lemma handleClick_unchecked:
  assumes "checked (d ! t) \<noteq> Some True"
  shows "handleClick engine d t = (Inr (), d) \<or>
         handleClick engine d t = syncConditionalRevealWithInputState d t"
proof (cases "t < length d \<and> kind (d ! t) = HTMLInput \<and> type_is_checkbox (d ! t)")
  case True
  note hc = handleClick_input [of t d engine, OF True [THEN conjunct1]
      True [THEN conjunct2, THEN conjunct1] True [THEN conjunct2, THEN conjunct2]]
  show ?thesis
  proof (cases "truthy (attrs (d ! t) ''aria-controls'')")
    case False
    then show ?thesis unfolding hc using assms by simp
  next
    case c: True
    obtain r d1 where s: "syncConditionalRevealWithInputState d t = (r, d1)"
      by (cases "syncConditionalRevealWithInputState d t")
    have c1: "checked (d1 ! t) \<noteq> Some True"
      using assms checked_sync [of d t t] by (simp add: s)
    show ?thesis unfolding hc using c c1 by (cases r) (simp_all add: s)
  qed
next
  case False
  then show ?thesis by (auto simp add: handleClick_def)
qed

subsection \<open>Initialisation\<close>

lemma promote_nth:
  "j < length d \<Longrightarrow> promote d i ! j = (if j = i then promoted d (d ! j) else d ! j)"
  unfolding promote_def promoted_def Let_def getAttribute_def setAttribute_def removeAttribute_def
  by (simp add: nth_upd)

lemma length_promote [simp]: "length (promote d i) = length d"
  unfolding promote_def Let_def by simp

lemma id_promoted [simp]: "attrs (promoted d e) ''id'' = attrs e ''id''"
  unfolding promoted_def Let_def by simp

lemma classList_promoted [simp]: "classList (promoted d e) = classList e"
  unfolding promoted_def Let_def by simp

lemma getElementById_promote [simp]: "getElementById (promote d i) x = getElementById d x"
  by (rule getElementById_cong) (simp_all add: promote_nth)





lemma sync_throw:
  "fst (syncConditionalRevealWithInputState d i) \<noteq> Inr () \<Longrightarrow>
   syncConditionalRevealWithInputState d i = (Inl TypeError, d)"
  by (auto simp add: sync_alt split: option.splits)





lemma syncAll_Nil [simp]: "syncAllConditionalReveals d [] = (Inr (), d)"
  by (simp add: syncAllConditionalReveals_def)

lemma syncAll_Cons:
  "syncAllConditionalReveals d (k # ks) =
     (if fst (syncConditionalRevealWithInputState d k) = Inr ()
      then syncAllConditionalReveals (snd (syncConditionalRevealWithInputState d k)) ks
      else (Inl TypeError, d))"
proof (cases "fst (syncConditionalRevealWithInputState d k) = Inr ()")
  case True
  then show ?thesis
    unfolding syncAllConditionalReveals_def
    by (cases "syncConditionalRevealWithInputState d k") (auto split: sum.splits)
next
  case False
  then show ?thesis
    unfolding syncAllConditionalReveals_def by (simp add: sync_throw)
qed

lemma syncAll_frame: "frame d (snd (syncAllConditionalReveals d is))"
proof (induction "is" arbitrary: d)
  case Nil
  then show ?case by (simp add: frame_refl)
next
  case (Cons k ks)
  show ?case
    using frame_sync [of d k] Cons.IH [of "snd (syncConditionalRevealWithInputState d k)"]
    by (auto simp add: syncAll_Cons frame_refl intro: frame_trans)
qed

lemma syncAll_checked [simp]:
  "checked (snd (syncAllConditionalReveals d is) ! j) = checked (d ! j)"
  by (induction "is" arbitrary: d) (simp_all add: syncAll_Cons)

lemma syncAll_length [simp]: "length (snd (syncAllConditionalReveals d is)) = length d"
  using syncAll_frame [of d "is"] by (rule frame_length)








lemma distinct_querySelectorAll_checkboxes [simp]: "distinct (querySelectorAll_checkboxes d m)"
  by (simp add: querySelectorAll_checkboxes_def)



lemma Checkboxes_type_in_capitals:
  "Checkboxes (doc upper_page) (Elem 0) = Inr \<lparr>cb_module = Some 0, cb_inputs = Some [1]\<rparr> \<and>
   fst (init upper_page \<lparr>cb_module = Some 0, cb_inputs = Some [1]\<rparr>) = Inr () \<and>
   listeners (snd (init upper_page \<lparr>cb_module = Some 0, cb_inputs = Some [1]\<rparr>)) =
     [EventListener Window ''pageshow'' SyncAllConditionalReveals,
      EventListener (Node 0) ''click'' HandleClick]"
  by code_simp

subsection \<open>The service header\<close>

lemma checkMode_ready:
  "mql this = Some q \<Longrightarrow> sh_menu this = Some menu \<Longrightarrow> sh_menuButton this = Some button \<Longrightarrow>
   checkMode en this d =
     (if mql_matches en
      then setAttribute (removeAttribute d menu ''hidden'') button ''hidden'' []
      else (if menuIsOpen this
            then removeAttribute
                   (setAttribute (removeAttribute d button ''hidden'') button ''aria-expanded''
                      (toString (menuIsOpen this))) menu ''hidden''
            else setAttribute
                   (setAttribute (removeAttribute d button ''hidden'') button ''aria-expanded''
                      (toString (menuIsOpen this))) menu ''hidden'' []))"
  by (simp add: checkMode_def Let_def)

lemma checkMode_mode_shown:
  assumes "mql this = Some q" and "sh_menu this = Some menu" and "sh_menuButton this = Some button"
    and "menu < length d" and "button < length d" and "menu \<noteq> button"
  shows "mode_shown en (menuIsOpen this) menu button (checkMode en this d)"
  unfolding checkMode_ready [OF assms(1-3)] mode_shown_def
  using assms(4-6) by (simp add: attrs_setAttribute attrs_removeAttribute)

lemma querySelector_class_less: "querySelector_class d m c = Some b \<Longrightarrow> b < length d"
  unfolding querySelector_class_def by (auto simp add: find_Some_iff)

lemma length_checkMode [simp]: "length (checkMode en this d) = length d"
  unfolding checkMode_def Let_def by (simp split: option.splits)

lemma ServiceHeader_ready:
  assumes "ServiceHeader en w v = (Inr this, w')" and "sh_menuButton this = Some button"
  shows "\<exists>q menu. mql this = Some q \<and> sh_menu this = Some menu \<and> \<not> menuIsOpen this \<and>
           menu < length (doc w') \<and> button < length (doc w') \<and>
           doc w' = checkMode en this (doc w)"
  using assms
  unfolding ServiceHeader_def GOVUKFrontendComponent_def checkSupport_def
    setupResponsiveChecks_def Let_def
  by (auto simp add: checkMode_def split: if_splits js_value.splits option.splits
      dest: querySelector_class_less getElementById_less)

subsection \<open>Examples from fixtures\<close>

lemma assign_other_key:
  "k \<noteq> ''__proto__'' \<Longrightarrow> assign ob k v = ob\<lparr>own := (own ob)(k \<mapsto> v)\<rparr>"
  by (simp add: assign_def)

lemma fold_assign:
  "\<forall>f\<in>set fs. name f \<noteq> ''__proto__'' \<Longrightarrow>
   own (fold (\<lambda>example examples. assign examples (name example) (options example)) fs ob) =
     own ob ++ map_of (rev (map (\<lambda>f. (name f, options f)) fs))"
proof (induction fs arbitrary: ob)
  case Nil
  then show ?case by simp
next
  case (Cons f fs)
  let ?m = "map_of (rev (map (\<lambda>f. (name f, options f)) fs))"
  have n: "name f \<noteq> ''__proto__''" using Cons.prems by simp
  have r: "\<forall>f\<in>set fs. name f \<noteq> ''__proto__''" using Cons.prems by simp
  have a: "own (assign ob (name f) (options f)) = own ob ++ [name f \<mapsto> options f]"
    using n by (simp add: assign_other_key)
  have "own (fold (\<lambda>example examples. assign examples (name example) (options example))
           (f # fs) ob) =
        own (fold (\<lambda>example examples. assign examples (name example) (options example))
           fs (assign ob (name f) (options f)))"
    by simp
  also have "\<dots> = own (assign ob (name f) (options f)) ++ ?m"
    using r by (rule Cons.IH)
  also have "\<dots> = (own ob ++ [name f \<mapsto> options f]) ++ ?m"
    by (simp only: a)
  also have "\<dots> = own ob ++ ([name f \<mapsto> options f] ++ ?m)"
    by (rule map_add_assoc [symmetric])
  also have "[name f \<mapsto> options f] ++ ?m =
      map_of (rev (map (\<lambda>f. (name f, options f)) (f # fs)))"
    by simp
  finally show ?case .
qed

lemma map_of_rev_last:
  assumes "name f \<notin> name ` set ys"
  shows "map_of (rev (map (\<lambda>f. (name f, options f)) (xs @ f # ys))) (name f) = Some (options f)"
proof -
  let ?kv = "\<lambda>f. (name f, options f)"
  have n: "name f \<notin> fst ` set (rev (map ?kv ys))"
    using assms by (auto simp add: image_iff)
  have "map_of (rev (map ?kv ys)) (name f) = None"
    using n by (simp add: map_of_eq_None_iff)
  then show ?thesis by (simp add: map_add_def)
qed

lemma getExamples_keys_without_proto:
  assumes p: "pkg componentName = Some fixtures"
    and np: "\<forall>f\<in>set fixtures. name f \<noteq> ''__proto__''"
  shows "\<exists>examples. getExamples pkg componentName = Inr examples \<and>
     dom (own examples) = name ` set fixtures \<and>
     (\<forall>xs f ys. fixtures = xs @ f # ys \<and> name f \<notin> name ` set ys \<longrightarrow>
        own examples (name f) = Some (options f))"
proof -
  define examples where
    "examples = fold (\<lambda>example examples. assign examples (name example) (options example))
       fixtures \<lparr>own = Map.empty, proto = ObjectPrototype\<rparr>"
  have r: "getExamples pkg componentName = Inr examples"
    using p by (simp add: getExamples_def getComponentFixtures_def examples_def)
  have o: "own examples = map_of (rev (map (\<lambda>f. (name f, options f)) fixtures))"
    unfolding examples_def using fold_assign [OF np] by simp
  have d: "dom (own examples) = name ` set fixtures"
    unfolding o by (auto simp add: dom_map_of_conv_image_fst image_iff)
  have l: "\<forall>xs f ys. fixtures = xs @ f # ys \<and> name f \<notin> name ` set ys \<longrightarrow>
      own examples (name f) = Some (options f)"
  proof (intro allI impI, elim conjE)
    fix xs f ys
    assume e: "fixtures = xs @ f # ys" and n: "name f \<notin> name ` set ys"
    have "own examples (name f) =
        map_of (rev (map (\<lambda>f. (name f, options f)) (xs @ f # ys))) (name f)"
      by (simp only: o e)
    also have "\<dots> = Some (options f)" using n by (rule map_of_rev_last)
    finally show "own examples (name f) = Some (options f)" .
  qed
  from r d l show ?thesis by (intro exI [of _ examples] conjI)
qed

lemma getExamples_select:
  "\<exists>examples. getExamples select_package ''select'' = Inr examples \<and>
     dom (own examples) = {''default'', ''with hint''} \<and>
     own examples ''default'' = Some (JObject [(''id'', JPrimitive ''select-3'')]) \<and>
     own examples ''with hint'' = Some (JObject [(''hint'', JPrimitive ''text'')]) \<and>
     proto examples = ObjectPrototype"
  by (simp add: getExamples_def getComponentFixtures_def select_package_def select_fixtures_def
      assign_def)

lemma getExamples_proto_setter_cases:
  "getExamples proto_text_package ''select'' = Inr \<lparr>own = Map.empty, proto = ObjectPrototype\<rparr> \<and>
   getExamples proto_twice_package ''select'' =
     Inr \<lparr>own = [''__proto__'' \<mapsto> JObject [(''id'', JPrimitive ''select-2'')]],
          proto = NullPrototype\<rparr>"
  by (simp add: proto_text_package_def proto_twice_package_def getExamples_def
      getComponentFixtures_def assign_def inherits_proto_setter_def)

subsection \<open>Claims\<close>

text \<open>
  C1. Constructing a component with a required DOM node absent. When the support check
  passes, the \<open>ServiceHeader\<close> constructor throws an \<open>ElementError\<close> for a null root
  element, for a toggle button whose \<open>aria-controls\<close> is missing or empty, and for a
  button whose \<open>aria-controls\<close> names no element of the document. When the support check
  fails, it throws the \<open>SupportError\<close> first, whatever its argument. The \<open>Checkboxes\<close>
  constructor throws nothing, whatever its argument: for an argument that is not an
  HTMLElement, or a module without checkbox inputs, it returns an instance with neither
  \<open>$module\<close> nor \<open>$inputs\<close>.
\<close>

theorem missing_elements_at_construction:
  "(supportedLevelMessage en = ''OK'' \<longrightarrow>
      fst (ServiceHeader en w Null) = Inl (ElementError RootElement) \<and>
      (\<forall>m b. querySelector_class (doc w) m ''govuk-js-service-header-toggle'' = Some b \<and>
          \<not> truthy (getAttribute (doc w) b ''aria-controls'') \<longrightarrow>
          fst (ServiceHeader en w (Elem m)) = Inl (ElementError NavButtonAriaControls)) \<and>
      (\<forall>m b menuId. querySelector_class (doc w) m ''govuk-js-service-header-toggle'' = Some b \<and>
          getAttribute (doc w) b ''aria-controls'' = Some menuId \<and> menuId \<noteq> [] \<and>
          getElementById (doc w) menuId = None \<longrightarrow>
          fst (ServiceHeader en w (Elem m)) = Inl (ElementError (Navigation menuId)))) \<and>
   (supportedLevelMessage en \<noteq> ''OK'' \<longrightarrow>
      (\<forall>u. fst (ServiceHeader en w u) = Inl (SupportError (supportedLevelMessage en)))) \<and>
   (\<forall>u. \<exists>this. Checkboxes (doc w) u = Inr this) \<and>
   (\<forall>u. \<not> instanceof_HTMLElement (doc w) u \<or>
        (\<exists>m. u = Elem m \<and> querySelectorAll_checkboxes (doc w) m = []) \<longrightarrow>
        Checkboxes (doc w) u = Inr \<lparr>cb_module = None, cb_inputs = None\<rparr>)"
proof -
  have a: "fst (ServiceHeader en w Null) = Inl (ElementError RootElement)"
    if "supportedLevelMessage en = ''OK''"
    using that
    by (simp add: ServiceHeader_def GOVUKFrontendComponent_def checkSupport_def Let_def)
  have b: "fst (ServiceHeader en w (Elem m)) = Inl (ElementError NavButtonAriaControls)"
    if "supportedLevelMessage en = ''OK''"
      and "querySelector_class (doc w) m ''govuk-js-service-header-toggle'' = Some b"
      and "\<not> truthy (getAttribute (doc w) b ''aria-controls'')" for m b
    using that
    by (simp add: ServiceHeader_def GOVUKFrontendComponent_def checkSupport_def Let_def)
  have c: "fst (ServiceHeader en w (Elem m)) = Inl (ElementError (Navigation menuId))"
    if "supportedLevelMessage en = ''OK''"
      and "querySelector_class (doc w) m ''govuk-js-service-header-toggle'' = Some b"
      and "getAttribute (doc w) b ''aria-controls'' = Some menuId" and "menuId \<noteq> []"
      and "getElementById (doc w) menuId = None" for m b menuId
    using that
    by (simp add: ServiceHeader_def GOVUKFrontendComponent_def checkSupport_def Let_def
        truthy_def)
  have s: "fst (ServiceHeader en w u) = Inl (SupportError (supportedLevelMessage en))"
    if "supportedLevelMessage en \<noteq> ''OK''" for u
    using that
    by (simp add: ServiceHeader_def GOVUKFrontendComponent_def checkSupport_def Let_def)
  have t: "\<exists>this. Checkboxes (doc w) u = Inr this" for u
    unfolding Checkboxes_def Let_def by (simp split: js_value.splits)
  have d: "Checkboxes (doc w) u = Inr \<lparr>cb_module = None, cb_inputs = None\<rparr>"
    if "\<not> instanceof_HTMLElement (doc w) u \<or>
        (\<exists>m. u = Elem m \<and> querySelectorAll_checkboxes (doc w) m = [])" for u
    using that unfolding Checkboxes_def Let_def by (auto split: js_value.splits)
  have A: "supportedLevelMessage en = ''OK'' \<longrightarrow>
      fst (ServiceHeader en w Null) = Inl (ElementError RootElement) \<and>
      (\<forall>m b. querySelector_class (doc w) m ''govuk-js-service-header-toggle'' = Some b \<and>
          \<not> truthy (getAttribute (doc w) b ''aria-controls'') \<longrightarrow>
          fst (ServiceHeader en w (Elem m)) = Inl (ElementError NavButtonAriaControls)) \<and>
      (\<forall>m b menuId. querySelector_class (doc w) m ''govuk-js-service-header-toggle'' = Some b \<and>
          getAttribute (doc w) b ''aria-controls'' = Some menuId \<and> menuId \<noteq> [] \<and>
          getElementById (doc w) menuId = None \<longrightarrow>
          fst (ServiceHeader en w (Elem m)) = Inl (ElementError (Navigation menuId)))"
    using a b c by blast
  have S: "supportedLevelMessage en \<noteq> ''OK'' \<longrightarrow>
      (\<forall>u. fst (ServiceHeader en w u) = Inl (SupportError (supportedLevelMessage en)))"
    using s by blast
  have T: "\<forall>u. \<exists>this. Checkboxes (doc w) u = Inr this"
    using t by (rule allI)
  have D: "\<forall>u. \<not> instanceof_HTMLElement (doc w) u \<or>
        (\<exists>m. u = Elem m \<and> querySelectorAll_checkboxes (doc w) m = []) \<longrightarrow>
        Checkboxes (doc w) u = Inr \<lparr>cb_module = None, cb_inputs = None\<rparr>"
    using d by (intro allI impI)
  from A S T D show ?thesis by (intro conjI)
qed

theorem missing_elements_at_construction_witness:
  "fst (ServiceHeader supported_env plain_page Null) = Inl (ElementError RootElement) \<and>
   fst (ServiceHeader supported_env no_controls_page (Elem 0)) =
     Inl (ElementError NavButtonAriaControls) \<and>
   fst (ServiceHeader supported_env missing_menu_page (Elem 0)) =
     Inl (ElementError (Navigation ''navigation'')) \<and>
   fst (ServiceHeader unsupported_env missing_menu_page (Elem 0)) =
     Inl (SupportError ''not supported'') \<and>
   Checkboxes (doc plain_page) Null = Inr \<lparr>cb_module = None, cb_inputs = None\<rparr> \<and>
   Checkboxes (doc text_page) (Elem 0) = Inr \<lparr>cb_module = None, cb_inputs = None\<rparr>"
proof -
  have s: "supportedLevelMessage supported_env = ''OK''" by (simp add: supported_env_def)
  have u: "supportedLevelMessage unsupported_env = ''not supported''"
    by (simp add: unsupported_env_def supported_env_def)
  have b1: "querySelector_class (doc no_controls_page) 0 ''govuk-js-service-header-toggle'' = Some 1"
    by code_simp
  have b2: "\<not> truthy (getAttribute (doc no_controls_page) 1 ''aria-controls'')"
    by code_simp
  have c1: "querySelector_class (doc missing_menu_page) 0 ''govuk-js-service-header-toggle'' = Some 1"
    by code_simp
  have c2: "getAttribute (doc missing_menu_page) 1 ''aria-controls'' = Some ''navigation''"
    by code_simp
  have c3: "getElementById (doc missing_menu_page) ''navigation'' = None"
    by code_simp
  have d0: "\<not> instanceof_HTMLElement (doc plain_page) Null" by code_simp
  have d1: "querySelectorAll_checkboxes (doc text_page) 0 = []" by code_simp
  note sup = missing_elements_at_construction [THEN conjunct1, rule_format, OF s]
  have a: "fst (ServiceHeader supported_env plain_page Null) = Inl (ElementError RootElement)"
    by (rule sup [THEN conjunct1])
  have "querySelector_class (doc no_controls_page) 0 ''govuk-js-service-header-toggle'' = Some 1 \<and>
      \<not> truthy (getAttribute (doc no_controls_page) 1 ''aria-controls'')"
    using b1 b2 by (rule conjI)
  then have b: "fst (ServiceHeader supported_env no_controls_page (Elem 0)) =
     Inl (ElementError NavButtonAriaControls)"
    by (rule sup [THEN conjunct2, THEN conjunct1, rule_format])
  have n: "''navigation'' \<noteq> []" by simp
  have "querySelector_class (doc missing_menu_page) 0 ''govuk-js-service-header-toggle'' = Some 1 \<and>
      getAttribute (doc missing_menu_page) 1 ''aria-controls'' = Some ''navigation'' \<and>
      ''navigation'' \<noteq> [] \<and> getElementById (doc missing_menu_page) ''navigation'' = None"
    using c1 c2 n c3 by (intro conjI)
  then have c: "fst (ServiceHeader supported_env missing_menu_page (Elem 0)) =
     Inl (ElementError (Navigation ''navigation''))"
    by (rule sup [THEN conjunct2, THEN conjunct2, rule_format])
  have u': "supportedLevelMessage unsupported_env \<noteq> ''OK''" unfolding u by simp
  have e: "fst (ServiceHeader unsupported_env missing_menu_page (Elem 0)) =
     Inl (SupportError ''not supported'')"
    using missing_elements_at_construction [THEN conjunct2, THEN conjunct1, rule_format, OF u',
        of missing_menu_page "Elem 0"]
    unfolding u .
  note cb = missing_elements_at_construction [THEN conjunct2, THEN conjunct2, THEN conjunct2,
      rule_format]
  have "\<not> instanceof_HTMLElement (doc plain_page) Null \<or>
      (\<exists>m. Null = Elem m \<and> querySelectorAll_checkboxes (doc plain_page) m = [])"
    using d0 by (rule disjI1)
  then have d: "Checkboxes (doc plain_page) Null = Inr \<lparr>cb_module = None, cb_inputs = None\<rparr>"
    by (rule cb)
  have "\<not> instanceof_HTMLElement (doc text_page) (Elem 0) \<or>
      (\<exists>m. Elem 0 = Elem m \<and> querySelectorAll_checkboxes (doc text_page) m = [])"
    using d1 by simp
  then have f: "Checkboxes (doc text_page) (Elem 0) = Inr \<lparr>cb_module = None, cb_inputs = None\<rparr>"
    by (rule cb)
  from a b c e d f show ?thesis by (intro conjI)
qed

text \<open>
  The claim C1 as first stated has the \<open>Checkboxes\<close> constructor throw as well, and has
  the \<open>ServiceHeader\<close> constructor throw an \<open>ElementError\<close> for a null root whatever the
  browser. On a page without checkboxes \<open>Checkboxes\<close> returns normally for \<open>null\<close> and
  for the page's element, and in a browser that fails the support check \<open>ServiceHeader\<close>
  throws the \<open>SupportError\<close> before it looks at its argument.
\<close>

theorem Checkboxes_constructor_does_not_throw:
  "Checkboxes (doc plain_page) Null = Inr \<lparr>cb_module = None, cb_inputs = None\<rparr> \<and>
   Checkboxes (doc plain_page) (Elem 0) = Inr \<lparr>cb_module = None, cb_inputs = None\<rparr> \<and>
   fst (ServiceHeader unsupported_env plain_page Null) = Inl (SupportError ''not supported'')"
  by code_simp

text \<open>
  C2. Clicking a checkbox that has \<open>data-behaviour=exclusive\<close>, when the click leaves it
  checked, unchecks the other checkboxes of its name and form owner. Let the clicked
  element \<open>t\<close> be an HTMLInputElement of type \<open>checkbox\<close> (in any letter case) that is
  exclusive and checked when the handler runs, with a name that stands for itself between
  the quotes of the selector. Then \<open>handleClick\<close> returns normally, and in the document it
  leaves every other element that the selector \<open>input[type="checkbox"]\<close> matches, whose
  \<open>name\<close> attribute has the value of \<open>t\<close>'s name and whose form owner is that of \<open>t\<close>, is
  unchecked; the clicked input and every element outside that set keep their checked
  state.
\<close>

theorem exclusive_click_unchecks_same_name:
  assumes t: "t < length d" and k: "kind (d ! t) = HTMLInput" and ty: "type_is_checkbox (d ! t)"
    and ch: "checked (d ! t) = Some True"
    and ex: "attrs (d ! t) ''data-behaviour'' = Some ''exclusive''"
    and plain: "css_plain (name_prop (d ! t))"
  shows "\<exists>d'. handleClick engine d t = (Inr (), d') \<and> length d' = length d \<and>
     (\<forall>j<length d. checked (d' ! j) =
        (if j \<noteq> t \<and> matches_input_checkbox (d ! j) \<and>
            attrs (d ! j) ''name'' = Some (name_prop (d ! t)) \<and> form (d ! j) = form (d ! t)
         then Some False else checked (d ! j)))"
proof -
  from handleClick_checked [OF t k ty ch, of engine] ex obtain d1 where
    f1: "frame d d1" and ch1: "\<And>j. checked (d1 ! j) = checked (d ! j)" and
    hc: "handleClick engine d t = unCheckAllInputsExcept engine d1 t"
    by auto
  have len1: "length d1 = length d" using f1 by (rule frame_length)
  have n1: "name_prop (d1 ! t) = name_prop (d ! t)" using f1 t by (rule frame_name_prop)
  have t1: "t < length d1" using t len1 by simp
  have p1: "css_plain (name_prop (d1 ! t))" using plain n1 by simp
  define d' where "d' = snd (unCheckAllInputsExcept engine d1 t)"
  note res = unCheckAllInputsExcept_result [OF t1 p1, of engine, folded d'_def]
  have r: "unCheckAllInputsExcept engine d1 t = (Inr (), d')"
    using res by (simp add: prod_eq_iff d'_def)
  have len': "length d' = length d" using res len1 frame_length [of d1 d'] by simp
  have "checked (d' ! j) =
        (if j \<noteq> t \<and> matches_input_checkbox (d ! j) \<and>
            attrs (d ! j) ''name'' = Some (name_prop (d ! t)) \<and> form (d ! j) = form (d ! t)
         then Some False else checked (d ! j))" if j: "j < length d" for j
  proof -
    have "checked (d' ! j) =
        (if j \<noteq> t \<and> matches_input_checkbox (d1 ! j) \<and>
            attrs (d1 ! j) ''name'' = Some (name_prop (d1 ! t)) \<and> form (d1 ! j) = form (d1 ! t)
         then Some False else checked (d1 ! j))"
      using res j len1 by simp
    then show ?thesis
      using ch1 [of j] n1 frame_matches_input_checkbox [OF f1 j] frame_form [OF f1 j]
        frame_form [OF f1 t] frame_attr [OF f1 j, of "''name''"]
      by simp
  qed
  with hc r len' show ?thesis by simp
qed

theorem exclusive_click_unchecks_same_name_witness:
  "fst (handleClick empty_engine waste_form 2) = Inr () \<and>
   checked (snd (handleClick empty_engine waste_form 2) ! 1) = Some False \<and>
   checked (snd (handleClick empty_engine waste_form 2) ! 2) = Some True \<and>
   checked (snd (handleClick empty_engine waste_form 2) ! 3) = Some True \<and>
   checked (snd (handleClick empty_engine waste_form 2) ! 4) = Some False"
proof -
  have t: "2 < length waste_form" by code_simp
  have k: "kind (waste_form ! 2) = HTMLInput" by code_simp
  have ty: "type_is_checkbox (waste_form ! 2)" by code_simp
  have ch: "checked (waste_form ! 2) = Some True" by code_simp
  have ex: "attrs (waste_form ! 2) ''data-behaviour'' = Some ''exclusive''" by code_simp
  have plain: "css_plain (name_prop (waste_form ! 2))" by code_simp
  from exclusive_click_unchecks_same_name [OF t k ty ch ex plain, of empty_engine]
  obtain d' where
    r: "handleClick empty_engine waste_form 2 = (Inr (), d')" and
    c: "\<forall>j<length waste_form. checked (d' ! j) =
        (if j \<noteq> 2 \<and> matches_input_checkbox (waste_form ! j) \<and>
            attrs (waste_form ! j) ''name'' = Some (name_prop (waste_form ! 2)) \<and>
            form (waste_form ! j) = form (waste_form ! 2)
         then Some False else checked (waste_form ! j))"
    by (elim exE conjE)
  have f: "fst (handleClick empty_engine waste_form 2) = Inr ()" unfolding r by simp
  have s: "snd (handleClick empty_engine waste_form 2) = d'" unfolding r by simp
  have l1: "1 < length waste_form" by code_simp
  have l3: "3 < length waste_form" by code_simp
  have l4: "4 < length waste_form" by code_simp
  have x1: "checked (d' ! 1) =
        (if (1::nat) \<noteq> 2 \<and> matches_input_checkbox (waste_form ! 1) \<and>
            attrs (waste_form ! 1) ''name'' = Some (name_prop (waste_form ! 2)) \<and>
            form (waste_form ! 1) = form (waste_form ! 2)
         then Some False else checked (waste_form ! 1))"
    using l1 by (rule c [rule_format])
  have y1: "(if (1::nat) \<noteq> 2 \<and> matches_input_checkbox (waste_form ! 1) \<and>
            attrs (waste_form ! 1) ''name'' = Some (name_prop (waste_form ! 2)) \<and>
            form (waste_form ! 1) = form (waste_form ! 2)
         then Some False else checked (waste_form ! 1)) = Some False"
    by code_simp
  have x2: "checked (d' ! 2) =
        (if (2::nat) \<noteq> 2 \<and> matches_input_checkbox (waste_form ! 2) \<and>
            attrs (waste_form ! 2) ''name'' = Some (name_prop (waste_form ! 2)) \<and>
            form (waste_form ! 2) = form (waste_form ! 2)
         then Some False else checked (waste_form ! 2))"
    using t by (rule c [rule_format])
  have y2: "(if (2::nat) \<noteq> 2 \<and> matches_input_checkbox (waste_form ! 2) \<and>
            attrs (waste_form ! 2) ''name'' = Some (name_prop (waste_form ! 2)) \<and>
            form (waste_form ! 2) = form (waste_form ! 2)
         then Some False else checked (waste_form ! 2)) = Some True"
    by code_simp
  have x3: "checked (d' ! 3) =
        (if (3::nat) \<noteq> 2 \<and> matches_input_checkbox (waste_form ! 3) \<and>
            attrs (waste_form ! 3) ''name'' = Some (name_prop (waste_form ! 2)) \<and>
            form (waste_form ! 3) = form (waste_form ! 2)
         then Some False else checked (waste_form ! 3))"
    using l3 by (rule c [rule_format])
  have y3: "(if (3::nat) \<noteq> 2 \<and> matches_input_checkbox (waste_form ! 3) \<and>
            attrs (waste_form ! 3) ''name'' = Some (name_prop (waste_form ! 2)) \<and>
            form (waste_form ! 3) = form (waste_form ! 2)
         then Some False else checked (waste_form ! 3)) = Some True"
    by code_simp
  have x4: "checked (d' ! 4) =
        (if (4::nat) \<noteq> 2 \<and> matches_input_checkbox (waste_form ! 4) \<and>
            attrs (waste_form ! 4) ''name'' = Some (name_prop (waste_form ! 2)) \<and>
            form (waste_form ! 4) = form (waste_form ! 2)
         then Some False else checked (waste_form ! 4))"
    using l4 by (rule c [rule_format])
  have y4: "(if (4::nat) \<noteq> 2 \<and> matches_input_checkbox (waste_form ! 4) \<and>
            attrs (waste_form ! 4) ''name'' = Some (name_prop (waste_form ! 2)) \<and>
            form (waste_form ! 4) = form (waste_form ! 2)
         then Some False else checked (waste_form ! 4)) = Some False"
    by code_simp
  have c1: "checked (d' ! 1) = Some False" using x1 y1 by (rule trans)
  have c2: "checked (d' ! 2) = Some True" using x2 y2 by (rule trans)
  have c3: "checked (d' ! 3) = Some True" using x3 y3 by (rule trans)
  have c4: "checked (d' ! 4) = Some False" using x4 y4 by (rule trans)
  from f c1 c2 c3 c4 show ?thesis unfolding s by (intro conjI)
qed

text \<open>
  The claim C2 as first stated speaks of every other checkbox with the same name value.
  In \<open>nameless_form\<close> the two checkboxes have no \<open>name\<close> attribute: their name values are
  the same (the empty string) and so are their form owners, and the click on the exclusive
  one leaves the other checked, because the selector \<open>[name=""]\<close> selects by the attribute
  and an input without the attribute is not selected. In \<open>quote_form\<close> both checkboxes
  carry the name \<open>a"b\<close>; the name is put between the quotes of the selector as it is,
  \<open>querySelectorAll\<close> throws a SyntaxError, and the other input stays checked.
\<close>

theorem exclusive_click_keeps_nameless_input_checked:
  "kind (nameless_form ! 1) = HTMLInput \<and> type_is_checkbox (nameless_form ! 1) \<and>
   kind (nameless_form ! 2) = HTMLInput \<and> type_is_checkbox (nameless_form ! 2) \<and>
   attrs (nameless_form ! 2) ''data-behaviour'' = Some ''exclusive'' \<and>
   checked (nameless_form ! 2) = Some True \<and>
   name_prop (nameless_form ! 1) = name_prop (nameless_form ! 2) \<and>
   form (nameless_form ! 1) = form (nameless_form ! 2) \<and>
   fst (handleClick empty_engine nameless_form 2) = Inr () \<and>
   checked (snd (handleClick empty_engine nameless_form 2) ! 1) = Some True \<and>
   kind (quote_form ! 2) = HTMLInput \<and> type_is_checkbox (quote_form ! 2) \<and>
   attrs (quote_form ! 2) ''data-behaviour'' = Some ''exclusive'' \<and>
   checked (quote_form ! 2) = Some True \<and>
   matches_input_checkbox (quote_form ! 1) \<and>
   attrs (quote_form ! 1) ''name'' = attrs (quote_form ! 2) ''name'' \<and>
   form (quote_form ! 1) = form (quote_form ! 2) \<and>
   fst (handleClick empty_engine quote_form 2) =
     Inl (SyntaxError (selector_named [CHR ''a'', CHR 0x22, CHR ''b''])) \<and>
   checked (snd (handleClick empty_engine quote_form 2) ! 1) = Some True"
  by code_simp




text \<open>
  C4. After every run of \<open>checkMode\<close> on a service header whose media query list, menu
  and button are set, and whose menu and button are different elements of the document,
  the attributes are as \<open>mode_shown\<close> says for the current open state; a click on the menu
  button flips the open state and leaves the attributes as \<open>mode_shown\<close> says for the new
  state.
\<close>

theorem checkMode_sets_visibility:
  assumes "mql this = Some q" and "sh_menu this = Some menu" and "sh_menuButton this = Some button"
    and "menu < length d" and "button < length d" and "menu \<noteq> button"
  shows "mode_shown en (menuIsOpen this) menu button (checkMode en this d) \<and>
         menuIsOpen (fst (handleMenuButtonClick en this d)) = (\<not> menuIsOpen this) \<and>
         mode_shown en (\<not> menuIsOpen this) menu button (snd (handleMenuButtonClick en this d))"
proof -
  let ?this1 = "this\<lparr>menuIsOpen := \<not> menuIsOpen this\<rparr>"
  have a: "mode_shown en (menuIsOpen this) menu button (checkMode en this d)"
    using assms by (rule checkMode_mode_shown)
  have "mode_shown en (menuIsOpen ?this1) menu button (checkMode en ?this1 d)"
    using assms by (intro checkMode_mode_shown [where q = q]) simp_all
  then have b: "mode_shown en (\<not> menuIsOpen this) menu button
      (snd (handleMenuButtonClick en this d))"
    by (simp add: handleMenuButtonClick_def Let_def)
  have c: "menuIsOpen (fst (handleMenuButtonClick en this d)) = (\<not> menuIsOpen this)"
    by (simp add: handleMenuButtonClick_def Let_def)
  from a b c show ?thesis by simp
qed

theorem checkMode_sets_visibility_witness:
  "fst (ServiceHeader narrow_env header_page (Elem 0)) = Inr header_instance \<and>
   attrs (checkMode supported_env header_instance (doc header_page) ! 2) ''hidden'' = None \<and>
   attrs (checkMode supported_env header_instance (doc header_page) ! 1) ''hidden'' \<noteq> None \<and>
   attrs (checkMode narrow_env header_instance (doc header_page) ! 1) ''hidden'' = None \<and>
   attrs (checkMode narrow_env header_instance (doc header_page) ! 1) ''aria-expanded'' =
     Some ''false'' \<and>
   attrs (checkMode narrow_env header_instance (doc header_page) ! 2) ''hidden'' \<noteq> None \<and>
   attrs (snd (handleMenuButtonClick narrow_env header_instance (doc header_page)) ! 1)
     ''aria-expanded'' = Some ''true'' \<and>
   attrs (snd (handleMenuButtonClick narrow_env header_instance (doc header_page)) ! 2)
     ''hidden'' = None"
proof -
  have c: "fst (ServiceHeader narrow_env header_page (Elem 0)) = Inr header_instance"
    by code_simp
  have q: "mql header_instance = Some ''(min-width: 40.0625em)''"
    by (simp add: header_instance_def)
  have m: "sh_menu header_instance = Some 2" by (simp add: header_instance_def)
  have b: "sh_menuButton header_instance = Some 1" by (simp add: header_instance_def)
  have l2: "2 < length (doc header_page)" by (simp add: header_page_def)
  have l1: "1 < length (doc header_page)" by (simp add: header_page_def)
  have ne: "(2::nat) \<noteq> 1" by simp
  have o: "\<not> menuIsOpen header_instance" by (simp add: header_instance_def)
  have w: "mql_matches supported_env" by (simp add: supported_env_def)
  have n: "\<not> mql_matches narrow_env" by (simp add: narrow_env_def supported_env_def)
  from checkMode_sets_visibility [OF q m b l2 l1 ne, of supported_env] w
  have wide: "attrs (checkMode supported_env header_instance (doc header_page) ! 2) ''hidden'' = None \<and>
     attrs (checkMode supported_env header_instance (doc header_page) ! 1) ''hidden'' \<noteq> None"
    by (simp add: mode_shown_def)
  from checkMode_sets_visibility [OF q m b l2 l1 ne, of narrow_env] n o
  have narrow: "attrs (checkMode narrow_env header_instance (doc header_page) ! 1) ''hidden'' = None \<and>
     attrs (checkMode narrow_env header_instance (doc header_page) ! 1) ''aria-expanded'' =
       Some ''false'' \<and>
     attrs (checkMode narrow_env header_instance (doc header_page) ! 2) ''hidden'' \<noteq> None \<and>
     attrs (snd (handleMenuButtonClick narrow_env header_instance (doc header_page)) ! 1)
       ''aria-expanded'' = Some ''true'' \<and>
     attrs (snd (handleMenuButtonClick narrow_env header_instance (doc header_page)) ! 2)
       ''hidden'' = None"
    by (simp add: mode_shown_def toString_def)
  from c wide narrow show ?thesis by simp
qed

text \<open>
  The claim C4 as first stated speaks of every constructed header, also of one whose
  menu is its button. On \<open>alias_page\<close> the button's \<open>aria-controls\<close> is the button's
  own id, so the constructor takes the button as the menu too; the two writes of
  \<open>checkMode\<close> then reach one element and the later one stands: with the query
  matching the menu has \<open>hidden\<close>, and on a narrow viewport with the menu closed the
  button has \<open>hidden\<close>.
\<close>

theorem checkMode_button_is_menu:
  "fst (ServiceHeader supported_env alias_page (Elem 0)) = Inr alias_instance \<and>
   sh_menu alias_instance = Some 1 \<and> sh_menuButton alias_instance = Some 1 \<and>
   mql_matches supported_env \<and>
   attrs (checkMode supported_env alias_instance (doc alias_page) ! 1) ''hidden'' = Some [] \<and>
   \<not> mql_matches narrow_env \<and>
   attrs (checkMode narrow_env alias_instance (doc alias_page) ! 1) ''hidden'' = Some []"
  by code_simp

text \<open>
  C5. The base class checks browser support once, at construction. Constructing a
  \<open>GOVUKFrontendComponent\<close>, and so a \<open>ServiceHeader\<close>, throws a \<open>SupportError\<close> exactly
  when \<open>getSupportedLevelMessage()\<close> returns something other than \<open>OK\<close>, the error
  carrying that message; and construction calls \<open>getSupportedLevelMessage()\<close> exactly
  once, whether it throws or returns. (\<open>checkMode\<close> and \<open>handleMenuButtonClick\<close> take and
  return the document only: they make no such call.)
\<close>

theorem support_check_at_construction:
  "((\<exists>m. fst (GOVUKFrontendComponent en w) = Inl (SupportError m)) =
      (supportedLevelMessage en \<noteq> ''OK'')) \<and>
   (supportedLevelMessage en \<noteq> ''OK'' \<longrightarrow>
      fst (GOVUKFrontendComponent en w) = Inl (SupportError (supportedLevelMessage en)) \<and>
      fst (ServiceHeader en w v) = Inl (SupportError (supportedLevelMessage en))) \<and>
   ((\<exists>m. fst (ServiceHeader en w v) = Inl (SupportError m)) =
      (supportedLevelMessage en \<noteq> ''OK'')) \<and>
   support_checks (snd (GOVUKFrontendComponent en w)) = Suc (support_checks w) \<and>
   support_checks (snd (ServiceHeader en w v)) = Suc (support_checks w)"
  unfolding ServiceHeader_def GOVUKFrontendComponent_def checkSupport_def
    setupResponsiveChecks_def Let_def
  by (auto split: if_splits js_value.splits option.splits)

theorem support_check_at_construction_witness:
  "fst (GOVUKFrontendComponent unsupported_env plain_page) = Inl (SupportError ''not supported'') \<and>
   fst (ServiceHeader unsupported_env plain_page (Elem 0)) = Inl (SupportError ''not supported'') \<and>
   support_checks (snd (ServiceHeader unsupported_env plain_page (Elem 0))) = 1 \<and>
   \<not> (\<exists>m. fst (ServiceHeader supported_env plain_page (Elem 0)) = Inl (SupportError m)) \<and>
   support_checks (snd (ServiceHeader supported_env plain_page (Elem 0))) = 1"
proof -
  have u: "supportedLevelMessage unsupported_env = ''not supported''"
    by (simp add: unsupported_env_def supported_env_def)
  have s: "supportedLevelMessage supported_env = ''OK''" by (simp add: supported_env_def)
  have z: "support_checks plain_page = 0" by (simp add: plain_page_def)
  show ?thesis
    using support_check_at_construction [of unsupported_env plain_page "Elem 0"]
      support_check_at_construction [of supported_env plain_page "Elem 0"]
    unfolding u s z by simp
qed

text \<open>
  C6. \<open>getExamples(componentName)\<close> returns an object with one key per distinct fixture
  name. For the component of \<open>proto_package\<close>, whose fixtures list holds one fixture, named
  \<open>__proto__\<close> and with an object as options, the object that \<open>getExamples\<close> returns has no
  key at all: the assignment \<open>examples[example.name] = example.options\<close> reached the
  setter that the object literal inherits, and the options became the prototype of the
  returned object. (For lists without a fixture of that name the keys are the names and
  the last fixture of a name gives the value: \<open>getExamples_keys_without_proto\<close>.)
\<close>

theorem getExamples_proto_fixture_has_no_key:
  "proto_package ''select'' =
     Some [\<lparr>name = ''__proto__'', options = JObject [(''id'', JPrimitive ''select-1'')],
            html = []\<rparr>] \<and>
   getExamples proto_package ''select'' =
     Inr \<lparr>own = Map.empty, proto = ValuePrototype (JObject [(''id'', JPrimitive ''select-1'')])\<rparr>"
  by (simp add: proto_package_def getExamples_def getComponentFixtures_def assign_def
      inherits_proto_setter_def)

text \<open>
  C7. Construction errors are atomic. Whenever the \<open>ServiceHeader\<close> constructor throws
  (an \<open>ElementError\<close>, the missing-breakpoint error of \<open>setupResponsiveChecks\<close> included,
  or a \<open>SupportError\<close>), no listener has been attached and no attribute changed: the
  document and the listeners are what they were before the call.
\<close>

theorem ServiceHeader_error_is_atomic:
  assumes "fst (ServiceHeader en w v) = Inl e"
  shows "doc (snd (ServiceHeader en w v)) = doc w \<and>
         listeners (snd (ServiceHeader en w v)) = listeners w"
  using assms
  unfolding ServiceHeader_def GOVUKFrontendComponent_def checkSupport_def
    setupResponsiveChecks_def Let_def
  by (auto split: if_splits js_value.splits option.splits)

theorem ServiceHeader_error_is_atomic_witness:
  "fst (ServiceHeader no_breakpoint_env header_page (Elem 0)) =
     Inl (ElementError (CssCustomProperty ''--govuk-frontend-breakpoint-tablet'')) \<and>
   doc (snd (ServiceHeader no_breakpoint_env header_page (Elem 0))) = doc header_page \<and>
   listeners (snd (ServiceHeader no_breakpoint_env header_page (Elem 0))) = []"
proof -
  have e: "fst (ServiceHeader no_breakpoint_env header_page (Elem 0)) =
     Inl (ElementError (CssCustomProperty ''--govuk-frontend-breakpoint-tablet''))"
    by code_simp
  have l: "listeners header_page = []" by (simp add: header_page_def)
  from ServiceHeader_error_is_atomic [OF e] e l show ?thesis by simp
qed

text \<open>
  C8. For a module argument that is not an HTMLElement, or that contains no checkbox
  inputs (no element that the selector \<open>input[type="checkbox"]\<close> matches), the constructor
  returns an instance with neither \<open>$module\<close> nor \<open>$inputs\<close> set, and \<open>init\<close> on that
  instance returns at once without throwing: the page (document and listeners) is what it
  was.
\<close>

theorem Checkboxes_without_inputs_is_inert:
  assumes "\<not> instanceof_HTMLElement (doc w) v \<or>
           (\<exists>m. v = Elem m \<and> querySelectorAll_checkboxes (doc w) m = [])"
  shows "\<exists>this. Checkboxes (doc w) v = Inr this \<and> cb_module this = None \<and>
           cb_inputs this = None \<and> init w this = (Inr (), w)"
proof -
  let ?inst = "\<lparr>cb_module = None, cb_inputs = None\<rparr>"
  have "Checkboxes (doc w) v = Inr ?inst"
    using assms unfolding Checkboxes_def Let_def by (auto split: js_value.splits)
  moreover have "init w ?inst = (Inr (), w)" by (simp add: init_def)
  ultimately show ?thesis by simp
qed

theorem Checkboxes_without_inputs_is_inert_witness:
  "(\<exists>this. Checkboxes (doc plain_page) Null = Inr this \<and> cb_module this = None \<and>
           cb_inputs this = None \<and> init plain_page this = (Inr (), plain_page)) \<and>
   (\<exists>this. Checkboxes (doc text_page) (Elem 0) = Inr this \<and> cb_module this = None \<and>
           cb_inputs this = None \<and> init text_page this = (Inr (), text_page))"
proof -
  have a: "\<not> instanceof_HTMLElement (doc plain_page) Null" by code_simp
  have "querySelectorAll_checkboxes (doc text_page) 0 = []" by code_simp
  then have b: "\<exists>m. Elem 0 = Elem m \<and> querySelectorAll_checkboxes (doc text_page) m = []"
    by simp
  show ?thesis
    using Checkboxes_without_inputs_is_inert [of plain_page Null]
      Checkboxes_without_inputs_is_inert [of text_page "Elem 0"] a b
    by blast
qed

text \<open>
  C9. A click that leaves the clicked checkbox unchecked changes no other checkbox's
  checked state. In the document that \<open>handleClick\<close> leaves, every element has the checked
  state it had; only the \<open>aria-expanded\<close> attribute of the clicked input and the hidden
  modifier class of its conditional reveal can differ: the attributes of every other
  element and the class list of every element but the reveal are what they were, and
  (by \<open>frame\<close>) kinds, parents, form owners, other attributes and other class tokens are
  unchanged throughout. The handler returns normally whenever the target's checked state
  is \<open>false\<close>, and whenever the target is not an HTMLInputElement.
\<close>

theorem unchecking_click_changes_no_other_input:
  assumes "checked (d ! t) \<noteq> Some True"
  shows "frame d (snd (handleClick engine d t)) \<and>
     (\<forall>j<length d. checked (snd (handleClick engine d t) ! j) = checked (d ! j) \<and>
        (j \<noteq> t \<longrightarrow> attrs (snd (handleClick engine d t) ! j) = attrs (d ! j)) \<and>
        (reveal_target d t \<noteq> Some j \<longrightarrow>
           classList (snd (handleClick engine d t) ! j) = classList (d ! j))) \<and>
     (checked (d ! t) = Some False \<or> kind (d ! t) \<noteq> HTMLInput \<longrightarrow>
        fst (handleClick engine d t) = Inr ())"
proof -
  have n: "fst (handleClick engine d t) = Inr ()"
    if "checked (d ! t) = Some False \<or> kind (d ! t) \<noteq> HTMLInput"
    using that
  proof
    assume "checked (d ! t) = Some False"
    then show ?thesis using handleClick_unchecked [OF assms, of engine]
      by (auto simp add: fst_sync)
  next
    assume "kind (d ! t) \<noteq> HTMLInput"
    then show ?thesis by (simp add: handleClick_def)
  qed
  from handleClick_unchecked [OF assms, of engine]
  have "frame d (snd (handleClick engine d t)) \<and>
     (\<forall>j<length d. checked (snd (handleClick engine d t) ! j) = checked (d ! j) \<and>
        (j \<noteq> t \<longrightarrow> attrs (snd (handleClick engine d t) ! j) = attrs (d ! j)) \<and>
        (reveal_target d t \<noteq> Some j \<longrightarrow>
           classList (snd (handleClick engine d t) ! j) = classList (d ! j)))"
  proof
    assume "handleClick engine d t = (Inr (), d)"
    then show ?thesis by (simp add: frame_refl)
  next
    assume "handleClick engine d t = syncConditionalRevealWithInputState d t"
    then show ?thesis
      by (auto simp add: frame_sync attrs_sync classList_sync split: option.splits)
  qed
  with n show ?thesis by blast
qed

theorem unchecking_click_changes_no_other_input_witness:
  "fst (handleClick empty_engine contact_form 1) = Inr () \<and>
   checked (snd (handleClick empty_engine contact_form 1) ! 1) = Some False \<and>
   checked (snd (handleClick empty_engine contact_form 1) ! 3) = Some True \<and>
   attrs (snd (handleClick empty_engine contact_form 1) ! 3) = attrs (contact_form ! 3) \<and>
   classList (snd (handleClick empty_engine contact_form 1) ! 3) = []"
proof -
  have u: "checked (contact_form ! 1) \<noteq> Some True" by code_simp
  have v: "checked (contact_form ! 1) = Some False \<or> kind (contact_form ! 1) \<noteq> HTMLInput"
    by code_simp
  note th = unchecking_click_changes_no_other_input [OF u, of empty_engine]
  have f: "fst (handleClick empty_engine contact_form 1) = Inr ()"
    using v by (rule th [THEN conjunct2, THEN conjunct2, rule_format])
  have l1: "1 < length contact_form" by code_simp
  have l3: "3 < length contact_form" by code_simp
  note a1 = th [THEN conjunct2, THEN conjunct1, rule_format, OF l1]
  note a3 = th [THEN conjunct2, THEN conjunct1, rule_format, OF l3]
  have e1: "checked (contact_form ! 1) = Some False" by code_simp
  have e3: "checked (contact_form ! 3) = Some True" by code_simp
  have c1: "checked (snd (handleClick empty_engine contact_form 1) ! 1) = Some False"
    using a1 [THEN conjunct1] e1 by (rule trans)
  have c3: "checked (snd (handleClick empty_engine contact_form 1) ! 3) = Some True"
    using a3 [THEN conjunct1] e3 by (rule trans)
  have n: "(3::nat) \<noteq> 1" by simp
  have at: "attrs (snd (handleClick empty_engine contact_form 1) ! 3) = attrs (contact_form ! 3)"
    using n by (rule a3 [THEN conjunct2, THEN conjunct1, rule_format])
  have rt: "reveal_target contact_form 1 \<noteq> Some 3" by code_simp
  have cl: "classList (snd (handleClick empty_engine contact_form 1) ! 3) =
      classList (contact_form ! 3)"
    using rt by (rule a3 [THEN conjunct2, THEN conjunct2, rule_format])
  have e: "classList (contact_form ! 3) = []" by code_simp
  have cl': "classList (snd (handleClick empty_engine contact_form 1) ! 3) = []"
    using cl e by (rule trans)
  from f c1 c3 at cl' show ?thesis by (intro conjI)
qed




end
